theory Spec2Isabelle
  imports Main "HOL-Library.Word" "HOL-Library.AList"
begin

section \<open>JavaScript strings\<close>

text \<open>
  A string is a list of code units; the type \<^typ>\<open>char\<close> has the 256 code units of
  Latin-1, so every statement below is about strings whose code units are below 256.
  \<open>String.prototype.trim\<close> strips WhiteSpace and LineTerminator code points from both
  ends; the ones in Latin-1 are TAB, LF, VT, FF, CR, SPACE and NO-BREAK SPACE.
\<close>

definition is_js_space :: "char \<Rightarrow> bool" where
  "is_js_space c \<longleftrightarrow>
     c \<in> set [CHR 0x09, CHR 0x0A, CHR 0x0B, CHR 0x0C, CHR 0x0D, CHR 0x20, CHR 0xA0]"

definition trim_js :: "string \<Rightarrow> string" where
  "trim_js s = rev (dropWhile is_js_space (rev (dropWhile is_js_space s)))"

text \<open>\<open>s.split(c)\<close> for a one-character separator: the pieces between the separators,
  so that the empty string splits into one empty piece.\<close>

fun split_js :: "char \<Rightarrow> string \<Rightarrow> string list" where
  "split_js sep [] = [[]]"
| "split_js sep (c # cs) =
     (if c = sep then [] # split_js sep cs
      else case split_js sep cs of
             p # ps \<Rightarrow> (c # p) # ps
           | [] \<Rightarrow> [[c]])"

text \<open>\<open>xs.join(sep)\<close> on an array of strings.\<close>

fun join_js :: "string \<Rightarrow> string list \<Rightarrow> string" where
  "join_js sep [] = []"
| "join_js sep [x] = x"
| "join_js sep (x # y # ys) = x @ sep @ join_js sep (y # ys)"

definition startsWith :: "string \<Rightarrow> string \<Rightarrow> bool" where
  "startsWith s p \<longleftrightarrow> take (length p) s = p"

definition endsWith :: "string \<Rightarrow> string \<Rightarrow> bool" where
  "endsWith s p \<longleftrightarrow> length p \<le> length s \<and> drop (length s - length p) s = p"

section \<open>JavaScript numbers read from and printed to strings\<close>

text \<open>
  The chart code applies \<open>Number(...)\<close> to cell strings and \<open>String(...)\<close> to the
  results. A number is kept here as the exact decimal value of the literal it was read
  from: \<open>Finite neg s n\<close> is the value \<open>0.s \<times> 10^n\<close> with sign \<open>neg\<close>, where \<open>s\<close> is the
  list of significant decimal digits (no leading and no trailing zero, empty for zero) and
  \<open>n\<close> the position of the decimal point, as in the description of \<open>Number::toString\<close>.
  Rounding to binary64 is not modelled, so for a literal with more than 15 significant
  digits or outside the range of binary64 the value and its printed form here are those of
  the exact decimal.
\<close>

datatype jsnum = NaN | Finite bool "nat list" int | Infinity bool

definition is_digit :: "char \<Rightarrow> bool" where
  "is_digit c \<longleftrightarrow> 48 \<le> (of_char c :: nat) \<and> (of_char c :: nat) \<le> 57"

definition digit_val :: "char \<Rightarrow> nat" where
  "digit_val c = of_char c - 48"

definition digit_char :: "nat \<Rightarrow> char" where
  "digit_char d = char_of (48 + d)"

definition strip_zeros :: "nat list \<Rightarrow> nat list" where
  "strip_zeros ds = rev (dropWhile (\<lambda>d. d = 0) (rev (dropWhile (\<lambda>d. d = 0) ds)))"

text \<open>The value of the digits \<open>ip.fp\<close> times \<open>10^e\<close>.\<close>

definition mk_decimal :: "bool \<Rightarrow> nat list \<Rightarrow> nat list \<Rightarrow> int \<Rightarrow> jsnum" where
  "mk_decimal neg ip fp e =
     (let ds = ip @ fp; s = strip_zeros ds
      in if s = [] then Finite neg [] 0
         else Finite neg s
                (int (length ip) - int (length (takeWhile (\<lambda>d. d = 0) ds)) + e))"

definition digits_value :: "nat \<Rightarrow> nat list \<Rightarrow> nat" where
  "digits_value base ds = fold (\<lambda>d n. base * n + d) ds 0"

fun digits_of_nat :: "nat \<Rightarrow> nat list" where
  "digits_of_nat n = (if n < 10 then [n] else digits_of_nat (n div 10) @ [n mod 10])"

declare digits_of_nat.simps [simp del]

definition jsnum_of_nat :: "nat \<Rightarrow> jsnum" where
  "jsnum_of_nat n = mk_decimal False (digits_of_nat n) [] 0"

subsection \<open>\<open>Number(string)\<close>: the grammar StringNumericLiteral\<close>

definition parse_sign :: "string \<Rightarrow> bool \<times> string" where
  "parse_sign s =
     (case s of
        c # r \<Rightarrow>
          if c = CHR ''-'' then (True, r) else if c = CHR ''+'' then (False, r) else (False, s)
      | [] \<Rightarrow> (False, s))"

text \<open>ExponentPart, or nothing, up to the end of the string.\<close>

definition parse_exponent :: "string \<Rightarrow> int option" where
  "parse_exponent s =
     (case s of
        [] \<Rightarrow> Some 0
      | c # r \<Rightarrow>
          if c = CHR ''e'' \<or> c = CHR ''E'' then
            (let (neg, ds) = parse_sign r in
             if ds \<noteq> [] \<and> list_all is_digit ds
             then Some ((if neg then - 1 else 1) * int (digits_value 10 (map digit_val ds)))
             else None)
          else None)"

text \<open>StrUnsignedDecimalLiteral: \<open>Infinity\<close>, or digits with an optional fraction and an
  optional exponent, with at least one digit before or after the point.\<close>

definition parse_unsigned_decimal :: "bool \<Rightarrow> string \<Rightarrow> jsnum" where
  "parse_unsigned_decimal neg s =
     (if s = ''Infinity'' then Infinity neg
      else
        let ip = takeWhile is_digit s; r1 = dropWhile is_digit s;
            (fp, r2) =
              (case r1 of
                 c # r \<Rightarrow>
                   if c = CHR ''.'' then (takeWhile is_digit r, dropWhile is_digit r)
                   else ([], r1)
               | [] \<Rightarrow> ([], r1))
        in if ip = [] \<and> fp = [] then NaN
           else case parse_exponent r2 of
                  None \<Rightarrow> NaN
                | Some e \<Rightarrow> mk_decimal neg (map digit_val ip) (map digit_val fp) e)"

definition radix_digit :: "nat \<Rightarrow> char \<Rightarrow> nat option" where
  "radix_digit base c =
     (let n = (of_char c :: nat);
          v = (if 48 \<le> n \<and> n \<le> 57 then Some (n - 48)
               else if 97 \<le> n \<and> n \<le> 102 then Some (n - 87)
               else if 65 \<le> n \<and> n \<le> 70 then Some (n - 55)
               else None)
      in case v of None \<Rightarrow> None | Some d \<Rightarrow> if d < base then Some d else None)"

text \<open>NonDecimalIntegerLiteral: \<open>0x\<close>, \<open>0o\<close> or \<open>0b\<close> and at least one digit, unsigned.\<close>

definition parse_non_decimal :: "string \<Rightarrow> jsnum option" where
  "parse_non_decimal s =
     (case s of
        z # x # ds \<Rightarrow>
          if z = CHR ''0'' then
            (let base = (if x = CHR ''x'' \<or> x = CHR ''X'' then 16
                         else if x = CHR ''o'' \<or> x = CHR ''O'' then 8
                         else if x = CHR ''b'' \<or> x = CHR ''B'' then 2 else (0::nat))
             in if base = 0 \<or> ds = [] then None
                else map_option (\<lambda>vs. jsnum_of_nat (digits_value base vs))
                       (those (map (radix_digit base) ds)))
          else None
      | _ \<Rightarrow> None)"

text \<open>StringToNumber: white space is trimmed, the empty string is \<open>+0\<close>, and a string
  outside the grammar is \<open>NaN\<close>.\<close>

definition Number_js :: "string \<Rightarrow> jsnum" where
  "Number_js str =
     (let t = trim_js str in
      if t = [] then Finite False [] 0
      else case parse_non_decimal t of
             Some n \<Rightarrow> n
           | None \<Rightarrow> (let (neg, u) = parse_sign t in parse_unsigned_decimal neg u))"

subsection \<open>\<open>String(number)\<close>: Number::toString in radix 10\<close>

definition show_nat :: "nat \<Rightarrow> string" where
  "show_nat n = map digit_char (digits_of_nat n)"

definition Number_toString :: "jsnum \<Rightarrow> string" where
  "Number_toString x =
     (case x of
        NaN \<Rightarrow> ''NaN''
      | Infinity neg \<Rightarrow> (if neg then ''-Infinity'' else ''Infinity'')
      | Finite neg s n \<Rightarrow>
          if s = [] then ''0''
          else
            (if neg then ''-'' else '''') @
            (let k = int (length s); ds = map digit_char s in
             if k \<le> n \<and> n \<le> 21 then ds @ replicate (nat (n - k)) CHR ''0''
             else if 0 < n \<and> n \<le> 21 then take (nat n) ds @ ''.'' @ drop (nat n) ds
             else if - 6 < n \<and> n \<le> 0 then ''0.'' @ replicate (nat (- n)) CHR ''0'' @ ds
             else
               (if k = 1 then ds else take 1 ds @ ''.'' @ drop 1 ds)
                 @ ''e'' @ (if 0 \<le> n - 1 then ''+'' else ''-'') @ show_nat (nat \<bar>n - 1\<bar>)))"

section \<open>Values and plain objects\<close>

text \<open>
  The values the chart code handles: \<open>undefined\<close>, numbers, strings, and the members a
  plain object inherits from \<open>Object.prototype\<close> (functions, and the prototype object
  itself under \<open>__proto__\<close>), which a property read returns when the object has no own
  property of that name.
\<close>

datatype jsval = JUndefined | JNum jsnum | JStr string | JInherited string

definition proto_names :: "string list" where
  "proto_names =
     [''constructor'', ''__defineGetter__'', ''__defineSetter__'', ''hasOwnProperty'',
      ''__lookupGetter__'', ''__lookupSetter__'', ''isPrototypeOf'', ''propertyIsEnumerable'',
      ''toString'', ''valueOf'', ''__proto__'', ''toLocaleString'']"

text \<open>\<open>String(v)\<close>. A built-in function prints as V8 prints it.\<close>

definition String_js :: "jsval \<Rightarrow> string" where
  "String_js v =
     (case v of
        JUndefined \<Rightarrow> ''undefined''
      | JNum n \<Rightarrow> Number_toString n
      | JStr s \<Rightarrow> s
      | JInherited k \<Rightarrow>
          if k = ''__proto__'' then ''[object Object]''
          else ''function '' @ (if k = ''constructor'' then ''Object'' else k)
                 @ ''() { [native code] }'')"

definition ToNumber :: "jsval \<Rightarrow> jsnum" where
  "ToNumber v =
     (case v of
        JUndefined \<Rightarrow> NaN
      | JNum n \<Rightarrow> n
      | JStr s \<Rightarrow> Number_js s
      | JInherited k \<Rightarrow> NaN)"

text \<open>The global \<open>isNaN\<close> converts its argument to a number first.\<close>

definition isNaN :: "jsval \<Rightarrow> bool" where
  "isNaN v \<longleftrightarrow> ToNumber v = NaN"

text \<open>
  An object is the map of its own properties. A read falls back to \<open>Object.prototype\<close>.
  An assignment \<open>obj[k] = v\<close> of a primitive value creates or updates the own property,
  except that for \<open>k = "__proto__"\<close> on an object without such an own property it runs
  the inherited setter, which ignores a primitive value. All values assigned below are
  primitive.
\<close>

type_synonym jsobject = "string \<rightharpoonup> jsval"

definition obj_get :: "jsobject \<Rightarrow> string \<Rightarrow> jsval" where
  "obj_get obj k =
     (case obj k of
        Some v \<Rightarrow> v
      | None \<Rightarrow> if k \<in> set proto_names then JInherited k else JUndefined)"

definition obj_set :: "jsobject \<Rightarrow> string \<Rightarrow> jsval \<Rightarrow> jsobject" where
  "obj_set obj k v = (if k = ''__proto__'' \<and> obj k = None then obj else obj(k \<mapsto> v))"

section \<open>Chart Data Mapper (DataAnalysisDisplay)\<close>

record ChartParameter =
  type :: string
  title :: string
  description :: string
  xAxisLabel :: "string option"
  yAxisLabel :: "string option"
  columns :: "string list"

record CSVData =
  headers :: "string list"
  rows :: "string list list"

text \<open>
  \<^verbatim>\<open>
  const parseValue = (value: string) => {
    if (value === null || value === undefined || value.trim() === '') return NaN;
    const num = Number(value);
    return isNaN(num) ? value : num;
  };
  \<close>
  The argument is \<open>row[i]\<close>, which is \<open>undefined\<close> (here \<open>None\<close>) when the row is
  shorter than the header.
\<close>

definition parseValue :: "string option \<Rightarrow> jsval" where
  "parseValue value =
     (case value of
        None \<Rightarrow> JNum NaN
      | Some s \<Rightarrow>
          if trim_js s = [] then JNum NaN
          else let num = Number_js s in if isNaN (JNum num) then JStr s else JNum num)"

definition nth_opt :: "'a list \<Rightarrow> nat \<Rightarrow> 'a option" where
  "nth_opt xs i = (if i < length xs then Some (xs ! i) else None)"

text \<open>
  \<^verbatim>\<open>
  const rawRows = data.rows.map(row => {
    const rowObject: { [key: string]: any } = {};
    data.headers.forEach((header, i) => {
      rowObject[header] = parseValue(row[i]);
    });
    return rowObject;
  });
  \<close>
\<close>

definition rowObject :: "string list \<Rightarrow> string list \<Rightarrow> jsobject" where
  "rowObject hs row =
     fold (\<lambda>(header, i) obj. obj_set obj header (parseValue (nth_opt row i)))
       (zip hs [0..<length hs]) Map.empty"

definition rawRows :: "CSVData \<Rightarrow> jsobject list" where
  "rawRows data = map (rowObject (headers data)) (rows data)"

text \<open>
  The object \<open>counts\<close> of the bar case, as the list of its own properties in creation
  order. \<open>counts[value] = (counts[value] || 0) + 1\<close> reads through the prototype: for a
  key that names a member of \<open>Object.prototype\<close> the read yields a function or object,
  which is truthy, and \<open>+ 1\<close> appends \<open>"1"\<close> to its string form; the assignment then
  creates an own property, except for \<open>__proto__\<close>. So a count is a number or, for those
  keys, a string.
\<close>

datatype count = Count nat | Junk string

type_synonym counts = "(string \<times> count) list"

definition count_value :: "count \<Rightarrow> jsval" where
  "count_value c = (case c of Count n \<Rightarrow> JNum (jsnum_of_nat n) | Junk s \<Rightarrow> JStr s)"

definition count_step :: "string \<Rightarrow> counts \<Rightarrow> counts" where
  "count_step value counts =
     (case map_of counts value of
        Some (Count n) \<Rightarrow> AList.update value (Count (n + 1)) counts
      | Some (Junk s) \<Rightarrow> AList.update value (Junk (s @ ''1'')) counts
      | None \<Rightarrow>
          if value = ''__proto__'' then counts
          else if value \<in> set proto_names
          then AList.update value (Junk (String_js (JInherited value) @ ''1'')) counts
          else AList.update value (Count 1) counts)"

text \<open>
  \<open>Object.entries\<close> lists the own properties in the order of OrdinaryOwnPropertyKeys:
  the keys that are array indices (canonical decimal numerals up to \<open>2^32 - 2\<close>) in
  ascending numeric order, then the other string keys in creation order.
\<close>

definition index_value :: "string \<Rightarrow> nat" where
  "index_value k = digits_value 10 (map digit_val k)"

definition is_array_index :: "string \<Rightarrow> bool" where
  "is_array_index k \<longleftrightarrow>
     k \<noteq> [] \<and> list_all is_digit k \<and> (k = ''0'' \<or> hd k \<noteq> CHR ''0'')
     \<and> index_value k \<le> 4294967294"

definition own_keys_order :: "string list \<Rightarrow> string list" where
  "own_keys_order ks =
     sort_key index_value (filter is_array_index ks) @ filter (\<lambda>k. \<not> is_array_index k) ks"

definition Object_entries :: "(string \<times> 'v) list \<Rightarrow> (string \<times> 'v) list" where
  "Object_entries al =
     List.map_filter (\<lambda>k. map_option (Pair k) (map_of al k)) (own_keys_order (map fst al))"

text \<open>
  \<^verbatim>\<open>
  switch (chartParam.type) {
    case 'bar': {
      if (chartParam.columns.length === 1) {
        const column = chartParam.columns[0];
        const counts: { [key: string]: number } = {};
        rawRows.forEach(row => {
          const value = String(row[column]);
          if (value !== 'NaN' && value !== 'undefined') {
            counts[value] = (counts[value] || 0) + 1;
          }
        });
        return Object.entries(counts).map(([name, count]) => ({ name, count }));
      }
      return [];
    }
    case 'scatter': {
      if (chartParam.columns.length === 2) {
        const [xCol, yCol] = chartParam.columns;
        return rawRows.filter(row => !isNaN(row[xCol]) && !isNaN(row[yCol])).map(row => ({
          [xCol]: row[xCol],
          [yCol]: row[yCol],
        }));
      }
      return [];
    }
    case 'line': {
      if (chartParam.columns.length >= 2) {
        const xCol = chartParam.columns[0];
        const yCols = chartParam.columns.slice(1);
        return rawRows.map(row => {
          const obj: Record<string, any> = { [xCol]: row[xCol] };
          yCols.forEach(yCol => {
            if (!isNaN(row[yCol])) {
              obj[yCol] = row[yCol];
            }
          });
          return obj;
        });
      }
      return [];
    }
    default:
      return [];
  }
  \<close>
  An object literal with computed keys defines own properties, also for \<open>__proto__\<close>.
\<close>

definition prepareChartData :: "ChartParameter \<Rightarrow> CSVData \<Rightarrow> jsobject list" where
  "prepareChartData chartParam data =
     (let raw = rawRows data in
      if type chartParam = ''bar'' then
        (case columns chartParam of
           [column] \<Rightarrow>
             let counts =
               fold (\<lambda>row counts.
                       let value = String_js (obj_get row column) in
                       if value \<noteq> ''NaN'' \<and> value \<noteq> ''undefined''
                       then count_step value counts else counts)
                 raw []
             in map (\<lambda>(name, count). [''name'' \<mapsto> JStr name, ''count'' \<mapsto> count_value count])
                  (Object_entries counts)
         | _ \<Rightarrow> [])
      else if type chartParam = ''scatter'' then
        (case columns chartParam of
           [xCol, yCol] \<Rightarrow>
             map (\<lambda>row. [xCol \<mapsto> obj_get row xCol, yCol \<mapsto> obj_get row yCol])
               (filter (\<lambda>row. \<not> isNaN (obj_get row xCol) \<and> \<not> isNaN (obj_get row yCol))
                  raw)
         | _ \<Rightarrow> [])
      else if type chartParam = ''line'' then
        (case columns chartParam of
           xCol # yCols \<Rightarrow>
             if yCols = [] then []
             else map (\<lambda>row.
                         fold (\<lambda>yCol obj.
                                 if \<not> isNaN (obj_get row yCol)
                                 then obj_set obj yCol (obj_get row yCol) else obj)
                           yCols [xCol \<mapsto> obj_get row xCol])
                    raw
         | [] \<Rightarrow> [])
      else [])"

text \<open>Vocabulary for the statements about the mapper: a value that is a number other than
  \<open>NaN\<close>, the keys of a list in first-seen order, and a record with exactly one
  \<open>name\<close> and one \<open>count\<close>.\<close>

definition is_number :: "jsval \<Rightarrow> bool" where
  "is_number v = (case v of JNum n \<Rightarrow> n \<noteq> NaN | _ \<Rightarrow> False)"

definition first_seen :: "'a list \<Rightarrow> 'a list" where
  "first_seen xs = rev (remdups (rev xs))"

definition bar_keys :: "string \<Rightarrow> CSVData \<Rightarrow> string list" where
  "bar_keys column data =
     filter (\<lambda>value. value \<noteq> ''NaN'' \<and> value \<noteq> ''undefined'')
       (map (\<lambda>row. String_js (obj_get row column)) (rawRows data))"

definition bar_record :: "string \<Rightarrow> jsval \<Rightarrow> jsobject" where
  "bar_record name count = [''name'' \<mapsto> JStr name, ''count'' \<mapsto> count]"

definition chart :: "string \<Rightarrow> string list \<Rightarrow> ChartParameter" where
  "chart t cs =
     \<lparr>type = t, title = ''chart'', description = ''a chart'',
      xAxisLabel = None, yAxisLabel = None, columns = cs\<rparr>"

section \<open>Base64 helpers (geminiService)\<close>

text \<open>
  \<open>btoa\<close> and \<open>atob\<close> are the browser's functions. \<open>btoa\<close> is the base64 encoding of
  RFC 4648 with padding, over a string of code units below 256. \<open>atob\<close> is the
  forgiving-base64 decode of the WHATWG Infra standard: ASCII white space is removed; if
  the length is then a multiple of 4, one or two trailing \<open>=\<close> are removed; a length that
  leaves remainder 1 modulo 4, or a character outside the alphabet, is a failure (here
  \<open>None\<close>, in the browser an exception); the characters are read as 6-bit groups, 24 bits
  giving 3 bytes, and 12 or 18 left-over bits giving 1 or 2 bytes.
\<close>

definition b64_char :: "nat \<Rightarrow> char" where
  "b64_char i =
     (if i < 26 then char_of (65 + i)
      else if i < 52 then char_of (97 + (i - 26))
      else if i < 62 then char_of (48 + (i - 52))
      else if i = 62 then CHR ''+'' else CHR ''/'')"

definition b64_index :: "char \<Rightarrow> nat option" where
  "b64_index c =
     (let n = (of_char c :: nat) in
      if 65 \<le> n \<and> n \<le> 90 then Some (n - 65)
      else if 97 \<le> n \<and> n \<le> 122 then Some (n - 71)
      else if 48 \<le> n \<and> n \<le> 57 then Some (n + 4)
      else if n = 43 then Some 62
      else if n = 47 then Some 63
      else None)"

text \<open>Three bytes as one 24-bit number; a short last group is filled with zero bits.\<close>

definition group24 :: "char \<Rightarrow> char \<Rightarrow> char \<Rightarrow> nat" where
  "group24 a b c = of_char a * 65536 + of_char b * 256 + of_char c"

fun btoa :: "string \<Rightarrow> string" where
  "btoa [] = []"
| "btoa [a] =
     (let n = group24 a (CHR 0x00) (CHR 0x00) in
      [b64_char (n div 262144), b64_char (n div 4096 mod 64), CHR ''='', CHR ''=''])"
| "btoa [a, b] =
     (let n = group24 a b (CHR 0x00) in
      [b64_char (n div 262144), b64_char (n div 4096 mod 64),
       b64_char (n div 64 mod 64), CHR ''=''])"
| "btoa (a # b # c # rest) =
     (let n = group24 a b c in
      [b64_char (n div 262144), b64_char (n div 4096 mod 64),
       b64_char (n div 64 mod 64), b64_char (n mod 64)] @ btoa rest)"

definition is_ascii_whitespace :: "char \<Rightarrow> bool" where
  "is_ascii_whitespace c \<longleftrightarrow> c \<in> set [CHR 0x09, CHR 0x0A, CHR 0x0C, CHR 0x0D, CHR 0x20]"

definition strip_padding :: "string \<Rightarrow> string" where
  "strip_padding d =
     (if 2 \<le> length d \<and> drop (length d - 2) d = ''=='' then take (length d - 2) d
      else if d \<noteq> [] \<and> last d = CHR ''='' then butlast d
      else d)"

fun decode_sextets :: "nat list \<Rightarrow> string" where
  "decode_sextets (a # b # c # d # rest) =
     (let n = a * 262144 + b * 4096 + c * 64 + d in
      [char_of (n div 65536), char_of (n div 256 mod 256), char_of (n mod 256)]
        @ decode_sextets rest)"
| "decode_sextets [a, b, c] =
     (let n = (a * 4096 + b * 64 + c) div 4 in [char_of (n div 256), char_of (n mod 256)])"
| "decode_sextets [a, b] = (let n = (a * 64 + b) div 16 in [char_of n])"
| "decode_sextets _ = []"

definition atob :: "string \<Rightarrow> string option" where
  "atob s =
     (let d = filter (\<lambda>c. \<not> is_ascii_whitespace c) s;
          d = (if length d mod 4 = 0 then strip_padding d else d)
      in if length d mod 4 = 1 then None
         else map_option decode_sextets (those (map b64_index d)))"

text \<open>
  \<^verbatim>\<open>
  function encode(bytes: Uint8Array) {
    let binary = '';
    const len = bytes.byteLength;
    for (let i = 0; i < len; i++) {
      binary += String.fromCharCode(bytes[i]);
    }
    return btoa(binary);
  }

  function decode(base64: string) {
    const binaryString = atob(base64);
    const len = binaryString.length;
    const bytes = new Uint8Array(len);
    for (let i = 0; i < len; i++) {
      bytes[i] = binaryString.charCodeAt(i);
    }
    return bytes;
  }
  \<close>
  The elements of a \<open>Uint8Array\<close> are 8-bit words; storing a code unit into one keeps
  its low 8 bits.
\<close>

type_synonym Uint8Array = "8 word list"

definition encode :: "Uint8Array \<Rightarrow> string" where
  "encode bytes = btoa (map (\<lambda>b. char_of (unat b)) bytes)"

definition decode :: "string \<Rightarrow> Uint8Array option" where
  "decode base64 = map_option (map (\<lambda>c. word_of_nat (of_char c))) (atob base64)"

text \<open>The 6-bit groups of a string, which \<open>btoa\<close> prints and \<open>atob\<close> reads back.\<close>

fun sextets :: "string \<Rightarrow> nat list" where
  "sextets [] = []"
| "sextets [a] =
     (let n = group24 a (CHR 0x00) (CHR 0x00) in [n div 262144, n div 4096 mod 64])"
| "sextets [a, b] =
     (let n = group24 a b (CHR 0x00) in [n div 262144, n div 4096 mod 64, n div 64 mod 64])"
| "sextets (a # b # c # rest) =
     (let n = group24 a b c in
      [n div 262144, n div 4096 mod 64, n div 64 mod 64, n mod 64] @ sextets rest)"

section \<open>Analysis Client (geminiService)\<close>

record DataAnalysisResult =
  summary :: string
  keyInsights :: "string list"
  dataQualityIssues :: "string list"
  narrativeHook :: string
  chartParameters :: "ChartParameter list"
  analysisNotes :: "string list option"

text \<open>
  The hosted model and \<open>JSON.parse\<close> are outside the repository; \<open>analyzeCsvData\<close>
  takes them as functions. \<open>generateContent\<close> maps the prompt to the message of the
  error it throws or to \<open>response.text\<close>, which may be \<open>undefined\<close>. \<open>JSON.parse\<close>
  maps a string to the message of its error or to the parsed value, typed as the source
  types it: a \<open>DataAnalysisResult\<close>, or \<open>null\<close>.
\<close>

type_synonym generateContent = "string \<Rightarrow> string + string option"

type_synonym JSON_parse = "string \<Rightarrow> string + DataAnalysisResult option"

definition maxRowsForPrompt :: nat where
  "maxRowsForPrompt = 100"

text \<open>
  \<^verbatim>\<open>
  const csvContent = [
    csvData.headers.join(','),
    ...csvData.rows.slice(0, maxRowsForPrompt).map((row) => row.join(',')),
  ].join('\n');
  \<close>
\<close>

definition csvContent :: "CSVData \<Rightarrow> string" where
  "csvContent csvData =
     join_js [CHR 0x0A]
       (join_js '','' (headers csvData)
          # map (\<lambda>row. join_js '','' row) (take maxRowsForPrompt (rows csvData)))"

definition truncation_text :: string where
  "truncation_text =
     ''Only the first '' @ show_nat maxRowsForPrompt @
     '' rows of your CSV were sent to the AI for analysis due to prompt length limitations.'' @
     '' The full dataset was used for chart generation.''"

definition truncationNote :: "CSVData \<Rightarrow> string option" where
  "truncationNote csvData =
     (if length (rows csvData) > maxRowsForPrompt then Some truncation_text else None)"

text \<open>The template of the prompt, before and after \<open>${csvContent}\<close>, line by line.\<close>

definition prompt_head :: string where
  "prompt_head = join_js [CHR 0x0A]
     [''You are an expert data analyst. Analyze the following CSV data and pro'' @
        ''vide a structured JSON response.'',
      ''  '',
      ''  CSV Data:'',
      []]"

definition prompt_tail :: string where
  "prompt_tail = join_js [CHR 0x0A]
     [[],
      [],
      ''  '',
      ''  Please provide:'',
      ''  1. A high-level 'summary' of the dataset (around 2-3 sentences).'',
      ''  2. An array of 'keyInsights' (3-5 concise, interesting findings).'',
      ''  3. An array of 'dataQualityIssues' (e.g., missing values, inconsiste'' @
        ''ncies, potential outliers; 0-3 issues).'',
      ''  4. A 'narrativeHook' (an engaging start or idea for a data story, 1-'' @
        ''2 sentences).'',
      ''  5. An array of 'chartParameters', each specifying:'',
      ''     - 'type': 'bar', 'line', or 'scatter' (choose based on data suita'' @
        ''bility).'',
      ''     - 'title': A descriptive title for the chart.'',
      ''     - 'description': What the plot would show and why it's relevant.'',
      ''     - 'xAxisLabel' (optional): Label for the x-axis.'',
      ''     - 'yAxisLabel' (optional): Label for the y-axis.'',
      ''     - 'columns': An array of column names from the CSV data to be use'' @
        ''d in the chart. For 'bar' charts with a single column, it implies a co'' @
        ''unt of unique values. For 'scatter' or 'line' charts, the first column'' @
        '' is typically X and subsequent are Y. Ensure the columns selected are '' @
        ''appropriate for the chart type (e.g., numerical for scatter/line axes)'' @
        ''.'',
      ''  '',
      ''  Return the response in JSON format according to the following schema'' @
        ''. Ensure all fields are present, even if empty arrays for lists.'',
      ''  '',
      ''  Schema for chartParameters:'',
      ''  interface ChartParameter {'',
      ''    type: 'bar' | 'line' | 'scatter';'',
      ''    title: string;'',
      ''    description: string;'',
      ''    xAxisLabel?: string;'',
      ''    yAxisLabel?: string;'',
      ''    columns: string[];'',
      ''  }'',
      ''  '',
      ''  Schema for DataAnalysisResult:'',
      ''  interface DataAnalysisResult {'',
      ''    summary: string;'',
      ''    keyInsights: string[];'',
      ''    dataQualityIssues: string[];'',
      ''    narrativeHook: string;'',
      ''    chartParameters: ChartParameter[];'',
      ''    analysisNotes?: string[]; // Use this to pass truncation notes if '' @
        ''any'',
      ''  }'',
      ''  '',
      ''  Make sure your JSON is valid and complete.'',
      ''  '']"

definition prompt :: "CSVData \<Rightarrow> string" where
  "prompt csvData = prompt_head @ csvContent csvData @ prompt_tail"

text \<open>
  \<^verbatim>\<open>
  let jsonStr = response.text.trim();
  if (jsonStr.startsWith('```json')) {
    jsonStr = jsonStr.substring(7);
  }
  if (jsonStr.endsWith('```')) {
    jsonStr = jsonStr.substring(0, jsonStr.length - 3);
  }
  \<close>
\<close>

definition strip_code_fence :: "string \<Rightarrow> string" where
  "strip_code_fence text =
     (let jsonStr = trim_js text;
          jsonStr = (if startsWith jsonStr ''```json'' then drop 7 jsonStr else jsonStr)
      in if endsWith jsonStr ''```'' then take (length jsonStr - 3) jsonStr else jsonStr)"

text \<open>
  \<^verbatim>\<open>
  const result: DataAnalysisResult = JSON.parse(jsonStr);
  if (truncationNote) {
    if (!result.analysisNotes) {
      result.analysisNotes = [];
    }
    result.analysisNotes.unshift(truncationNote);
  }
  return { analysisResult: result, truncationNote: truncationNote };
  \<close>
  All of it runs in a \<open>try\<close> whose \<open>catch\<close> throws
  \<open>Error("Failed to analyze CSV data: " + message)\<close>; the result \<open>Inl\<close> is that message.
  Reading \<open>trim\<close> of an undefined text and \<open>analysisNotes\<close> of \<open>null\<close> are type
  errors of the runtime, caught in the same way.
\<close>

definition add_truncation_note :: "string \<Rightarrow> DataAnalysisResult \<Rightarrow> DataAnalysisResult" where
  "add_truncation_note note result =
     result\<lparr>analysisNotes :=
       Some (note # (case analysisNotes result of None \<Rightarrow> [] | Some notes \<Rightarrow> notes))\<rparr>"

definition analyzeCsvData ::
  "generateContent \<Rightarrow> JSON_parse \<Rightarrow> CSVData
     \<Rightarrow> string + (DataAnalysisResult option \<times> string option)" where
  "analyzeCsvData generate parse csvData =
     (let failed = (\<lambda>message. Inl (''Failed to analyze CSV data: '' @ message)) in
      case generate (prompt csvData) of
        Inl message \<Rightarrow> failed message
      | Inr None \<Rightarrow> failed ''Cannot read properties of undefined (reading 'trim')''
      | Inr (Some text) \<Rightarrow>
          (case parse (strip_code_fence text) of
             Inl message \<Rightarrow> failed message
           | Inr None \<Rightarrow>
               (case truncationNote csvData of
                  None \<Rightarrow> Inr (None, None)
                | Some note \<Rightarrow>
                    failed ''Cannot read properties of null (reading 'analysisNotes')'')
           | Inr (Some result) \<Rightarrow>
               (case truncationNote csvData of
                  None \<Rightarrow> Inr (Some result, None)
                | Some note \<Rightarrow> Inr (Some (add_truncation_note note result), Some note))))"

text \<open>A parsed result to run the model on.\<close>

definition sample_result :: DataAnalysisResult where
  "sample_result =
     \<lparr>summary = ''Monthly sales.'', keyInsights = [''Sales grow.''], dataQualityIssues = [],
      narrativeHook = ''A year in numbers.'', chartParameters = [],
      analysisNotes = Some [''model note'']\<rparr>"

section \<open>Application State Controller (App)\<close>

datatype Sender = User | AI

record Message =
  msg_id :: string
  sender :: Sender
  msg_text :: string
  timestamp :: string
  audioAvailable :: "bool option"
  isPlaying :: "bool option"

text \<open>A file is what the handler sees of it: its size in bytes and the text that
  \<open>FileReader.readAsText\<close> delivers.\<close>

record File =
  file_name :: string
  file_size :: nat
  file_text :: string

text \<open>A chat session is the system context it was created with.\<close>

datatype Chat = Chat string

text \<open>
  The state of the component \<open>App\<close>: its \<open>useState\<close> cells and \<open>useRef\<close> cells. An
  audio source is named by the id of the message it plays. The last field is not in the
  source: it records, in order, the calls of the parser, of the three clients and of the
  audio sources, so that "is never invoked" can be stated.
\<close>

datatype call =
    ParseCsv string
  | AnalyzeCsv CSVData
  | CreateChat string
  | SendChat string
  | SourceStart string
  | SourceStop string
  | SourceDisconnect string

record AppState =
  selectedFile :: "File option"
  csvData :: "CSVData option"
  analysisResult :: "DataAnalysisResult option"
  chatMessages :: "Message list"
  isLoadingAnalysis :: bool
  isSendingChat :: bool
  error :: "string option"
  currentChatSession :: "Chat option"
  outputAudioContext :: bool
  currentAudioSource :: "string option"
  playingMessageId :: "string option"
  calls :: "call list"

subsection \<open>Upload\<close>

text \<open>
  The Tabular Parser, the body of \<open>reader.onload\<close>:
  \<^verbatim>\<open>
  const lines = text.split('\n').filter(line => line.trim() !== '');
  if (lines.length === 0) { setError('CSV file is empty.'); setSelectedFile(null); return; }
  const headers = lines[0].split(',').map(h => h.trim());
  const rows = lines.slice(1).map(line => line.split(',').map(c => c.trim()));
  \<close>
\<close>

definition parseCsvText :: "string \<Rightarrow> CSVData option" where
  "parseCsvText text =
     (case filter (\<lambda>line. trim_js line \<noteq> []) (split_js (CHR 0x0A) text) of
        [] \<Rightarrow> None
      | first # rest \<Rightarrow>
          Some \<lparr>headers = map trim_js (split_js CHR '','' first),
                rows = map (\<lambda>line. map trim_js (split_js CHR '','' line)) rest\<rparr>)"

definition initialContext :: "DataAnalysisResult \<Rightarrow> string" where
  "initialContext r =
     ''The CSV data you analyzed has the following summary: '' @ [CHR 0x22] @ summary r
     @ [CHR 0x22] @ ''. Key insights: '' @ join_js '', '' (keyInsights r)
     @ ''. Data quality issues: '' @ join_js '', '' (dataQualityIssues r) @ ''.''"

text \<open>
  \<^verbatim>\<open>
  const analyzeAndChat = useCallback(async (data: CSVData) => {
    setIsLoadingAnalysis(true);
    setError(null);
    try {
      const { analysisResult: newAnalysisResult, truncationNote } = await analyzeCsvData(data);
      setAnalysisResult(newAnalysisResult);
      if (newAnalysisResult) {
        const initialContext = `...`;
        currentChatSession.current = createChatSession(initialContext);
      }
      setChatMessages([]);
    } catch (err) {
      setError(`Failed to perform data analysis: ${...}`);
    } finally {
      setIsLoadingAnalysis(false);
    }
  }, []);
  \<close>
  \<open>createChatSession\<close> only builds the session object; it is taken to succeed.
\<close>

definition analyzeAndChat ::
  "generateContent \<Rightarrow> JSON_parse \<Rightarrow> CSVData \<Rightarrow> AppState \<Rightarrow> AppState" where
  "analyzeAndChat generate parse data s =
     (let s = s\<lparr>isLoadingAnalysis := True, error := None, calls := calls s @ [AnalyzeCsv data]\<rparr>;
          s = (case analyzeCsvData generate parse data of
                 Inr (newAnalysisResult, note) \<Rightarrow>
                   (let s = s\<lparr>analysisResult := newAnalysisResult\<rparr>;
                        s = (case newAnalysisResult of
                               Some r \<Rightarrow>
                                 s\<lparr>currentChatSession := Some (Chat (initialContext r)),
                                   calls := calls s @ [CreateChat (initialContext r)]\<rparr>
                             | None \<Rightarrow> s)
                    in s\<lparr>chatMessages := []\<rparr>)
               | Inl message \<Rightarrow>
                   s\<lparr>error := Some (''Failed to perform data analysis: '' @ message)\<rparr>)
      in s\<lparr>isLoadingAnalysis := False\<rparr>)"

text \<open>
  \<^verbatim>\<open>
  const handleFileSelect = useCallback(async (file: File) => {
    setSelectedFile(file);
    setError(null);
    setAnalysisResult(null); // Clear previous analysis
    setChatMessages([]); // Clear chat messages

    if (file.size > 20 * 1024 * 1024) { // 20 MB limit
      setError('File size exceeds 20MB limit.');
      setSelectedFile(null);
      return;
    }

    try {
      const reader = new FileReader();
      reader.onload = async (e) => {
        const text = e.target?.result as string;
        ... the parser, see above ...
        setCsvData({ headers, rows });
        await analyzeAndChat({ headers, rows });
      };
      reader.readAsText(file);
    } catch (err) { ... }
  }, []);
  \<close>
  The handler and the callback of the reader are run here as one step.
\<close>

definition handleFileSelect ::
  "generateContent \<Rightarrow> JSON_parse \<Rightarrow> File \<Rightarrow> AppState \<Rightarrow> AppState" where
  "handleFileSelect generate parse file s =
     (let s = s\<lparr>selectedFile := Some file, error := None, analysisResult := None,
                 chatMessages := []\<rparr>
      in if file_size file > 20 * 1024 * 1024
         then s\<lparr>error := Some ''File size exceeds 20MB limit.'', selectedFile := None\<rparr>
         else
           (let s = s\<lparr>calls := calls s @ [ParseCsv (file_text file)]\<rparr> in
            case parseCsvText (file_text file) of
              None \<Rightarrow> s\<lparr>error := Some ''CSV file is empty.'', selectedFile := None\<rparr>
            | Some data \<Rightarrow> analyzeAndChat generate parse data (s\<lparr>csvData := Some data\<rparr>)))"

subsection \<open>Chat\<close>

text \<open>
  The chat service streams chunks; a chunk is its text, or \<open>undefined\<close>. The stream as
  a whole fails with a message or delivers its chunks.
  \<^verbatim>\<open>
  export const sendMessageToChat = async (chat, message) => {
    try {
      const responseStream = await chat.sendMessageStream({ message: message });
      let fullText = '';
      for await (const chunk of responseStream) {
        collectedChunks.push(chunk);
        if (chunk.text) { fullText += chunk.text; }
      }
      return { text: fullText, ... };
    } catch (error) {
      throw new Error(`Failed to send message: ${...}`);
    }
  };
  \<close>
\<close>

type_synonym sendMessageStream = "Chat \<Rightarrow> string \<Rightarrow> string + string option list"

definition sendMessageToChat :: "sendMessageStream \<Rightarrow> Chat \<Rightarrow> string \<Rightarrow> string + string" where
  "sendMessageToChat stream chat message =
     (case stream chat message of
        Inl e \<Rightarrow> Inl (''Failed to send message: '' @ e)
      | Inr chunks \<Rightarrow>
          Inr (fold (\<lambda>chunk fullText.
                       case chunk of Some t \<Rightarrow> fullText @ t | None \<Rightarrow> fullText)
                 chunks []))"

text \<open>
  \<^verbatim>\<open>
  const handleSendMessage = useCallback(async (text: string) => {
    if (!currentChatSession.current || !analysisResult) {
      setError('Please upload and analyze data first.');
      return;
    }
    setIsSendingChat(true);
    setError(null);
    const newUserMessage: Message = {
      id: uuidv4(), sender: 'user', text: text, timestamp: new Date().toLocaleTimeString(),
    };
    setChatMessages((prev) => [...prev, newUserMessage]);
    try {
      const response = await sendMessageToChat(currentChatSession.current, text);
      const aiResponseText = response.text || "I'm sorry, I couldn't generate a response.";
      const newAiMessage: Message = {
        id: uuidv4(), sender: 'ai', text: aiResponseText,
        timestamp: new Date().toLocaleTimeString(), audioAvailable: true,
      };
      setChatMessages((prev) => [...prev, newAiMessage]);
    } catch (err) {
      setError(`Failed to send message: ${...}`);
      setChatMessages((prev) => prev.filter((msg) => msg.id !== newUserMessage.id));
    } finally {
      setIsSendingChat(false);
    }
  }, [analysisResult]);
  \<close>
  The ids that \<open>uuidv4\<close> returns and the clock readings are arguments. The part before
  the \<open>await\<close> and the two continuations are functions of their own.
\<close>

definition sendMessage_pending :: "string \<Rightarrow> string \<Rightarrow> string \<Rightarrow> AppState \<Rightarrow> AppState" where
  "sendMessage_pending uid now text s =
     s\<lparr>isSendingChat := True, error := None,
       chatMessages := chatMessages s @
         [\<lparr>msg_id = uid, sender = User, msg_text = text, timestamp = now,
           audioAvailable = None, isPlaying = None\<rparr>]\<rparr>"

definition sendMessage_resolved :: "string \<Rightarrow> string \<Rightarrow> string \<Rightarrow> AppState \<Rightarrow> AppState" where
  "sendMessage_resolved uid now responseText s =
     s\<lparr>chatMessages := chatMessages s @
         [\<lparr>msg_id = uid, sender = AI,
           msg_text = (if responseText \<noteq> [] then responseText
                       else ''I'm sorry, I couldn't generate a response.''),
           timestamp = now, audioAvailable = Some True, isPlaying = None\<rparr>],
       isSendingChat := False\<rparr>"

definition sendMessage_rejected :: "string \<Rightarrow> string \<Rightarrow> AppState \<Rightarrow> AppState" where
  "sendMessage_rejected uid message s =
     s\<lparr>error := Some (''Failed to send message: '' @ message),
       chatMessages := filter (\<lambda>msg. msg_id msg \<noteq> uid) (chatMessages s),
       isSendingChat := False\<rparr>"

definition handleSendMessage ::
  "sendMessageStream \<Rightarrow> string \<Rightarrow> string \<Rightarrow> string \<Rightarrow> string \<Rightarrow> string
     \<Rightarrow> AppState \<Rightarrow> AppState" where
  "handleSendMessage stream uid1 now1 uid2 now2 text s =
     (case (currentChatSession s, analysisResult s) of
        (Some chat, Some r) \<Rightarrow>
          (let s = (sendMessage_pending uid1 now1 text s)\<lparr>calls := calls s @ [SendChat text]\<rparr>
           in case sendMessageToChat stream chat text of
                Inr responseText \<Rightarrow> sendMessage_resolved uid2 now2 responseText s
              | Inl message \<Rightarrow> sendMessage_rejected uid1 message s)
      | _ \<Rightarrow> s\<lparr>error := Some ''Please upload and analyze data first.''\<rparr>)"

subsection \<open>Audio playback\<close>

text \<open>
  \<^verbatim>\<open>
  const stopCurrentAudio = useCallback(() => {
    if (currentAudioSource.current) {
      currentAudioSource.current.stop();
      currentAudioSource.current.disconnect();
      currentAudioSource.current = null;
    }
    setPlayingMessageId(null);
  }, []);
  \<close>
\<close>

definition stopCurrentAudio :: "AppState \<Rightarrow> AppState" where
  "stopCurrentAudio s =
     (case currentAudioSource s of
        Some src \<Rightarrow>
          s\<lparr>calls := calls s @ [SourceStop src, SourceDisconnect src],
            currentAudioSource := None\<rparr>
      | None \<Rightarrow> s)\<lparr>playingMessageId := None\<rparr>"

definition set_playing :: "string \<Rightarrow> bool \<Rightarrow> Message list \<Rightarrow> Message list" where
  "set_playing messageId flag prev =
     map (\<lambda>msg. if msg_id msg = messageId then msg\<lparr>isPlaying := Some flag\<rparr> else msg) prev"

text \<open>
  \<^verbatim>\<open>
  const handlePlayAudio = useCallback(async (messageId: string, text: string) => {
    stopCurrentAudio(); // Stop any currently playing audio
    initAudioContext();
    const audioContext = outputAudioContext.current!;
    setPlayingMessageId(messageId);
    setChatMessages(prev => prev.map(msg =>
      msg.id === messageId ? { ...msg, isPlaying: true } : msg));
    try {
      const base64Audio = await generateSpeech(text);
      const audioBuffer = await decodeAudioData(decode(base64Audio), audioContext, 24000, 1);
      const source = audioContext.createBufferSource();
      source.buffer = audioBuffer;
      source.connect(audioContext.destination);
      source.onended = () => {
        setPlayingMessageId(null);
        setChatMessages(prev => prev.map(msg =>
          msg.id === messageId ? { ...msg, isPlaying: false } : msg));
        currentAudioSource.current = null;
      };
      source.start();
      currentAudioSource.current = source;
    } catch (err) {
      setError(`Failed to play audio: ${...}`);
      setPlayingMessageId(null);
      setChatMessages(prev => prev.map(msg =>
        msg.id === messageId ? { ...msg, isPlaying: false } : msg));
    }
  }, [stopCurrentAudio]);
  \<close>
  The handler runs up to its first \<open>await\<close>; what follows runs when the speech has
  arrived and is decoded, or has failed; \<open>onended\<close> runs when the source has stopped
  playing. Each of the four is one event.
\<close>

definition playAudio_requested :: "string \<Rightarrow> AppState \<Rightarrow> AppState" where
  "playAudio_requested messageId s =
     (let s = stopCurrentAudio s;
          s = s\<lparr>outputAudioContext := True\<rparr>
      in s\<lparr>playingMessageId := Some messageId,
           chatMessages := set_playing messageId True (chatMessages s)\<rparr>)"

definition playAudio_started :: "string \<Rightarrow> AppState \<Rightarrow> AppState" where
  "playAudio_started messageId s =
     s\<lparr>calls := calls s @ [SourceStart messageId], currentAudioSource := Some messageId\<rparr>"

definition playAudio_failed :: "string \<Rightarrow> string \<Rightarrow> AppState \<Rightarrow> AppState" where
  "playAudio_failed messageId message s =
     s\<lparr>error := Some (''Failed to play audio: '' @ message), playingMessageId := None,
       chatMessages := set_playing messageId False (chatMessages s)\<rparr>"

definition source_onended :: "string \<Rightarrow> AppState \<Rightarrow> AppState" where
  "source_onended messageId s =
     s\<lparr>playingMessageId := None,
       chatMessages := set_playing messageId False (chatMessages s),
       currentAudioSource := None\<rparr>"

datatype audio_event =
    PlayRequested string
  | SpeechReady string
  | SpeechFailed string string
  | Ended string

fun audio_step :: "audio_event \<Rightarrow> AppState \<Rightarrow> AppState" where
  "audio_step (PlayRequested messageId) s = playAudio_requested messageId s"
| "audio_step (SpeechReady messageId) s = playAudio_started messageId s"
| "audio_step (SpeechFailed messageId message) s = playAudio_failed messageId message s"
| "audio_step (Ended messageId) s = source_onended messageId s"

text \<open>The state of a freshly mounted component, and the messages flagged as playing.\<close>

definition initial_state :: AppState where
  "initial_state =
     \<lparr>selectedFile = None, csvData = None, analysisResult = None, chatMessages = [],
      isLoadingAnalysis = False, isSendingChat = False, error = None,
      currentChatSession = None, outputAudioContext = False, currentAudioSource = None,
      playingMessageId = None, calls = []\<rparr>"

definition playing_ids :: "AppState \<Rightarrow> string list" where
  "playing_ids s = map msg_id (filter (\<lambda>msg. isPlaying msg = Some True) (chatMessages s))"

text \<open>
  A session to run the model on. The model answers every prompt with a text that parses
  to \<open>sample_result\<close>, and every chat message with three chunks. A file of two lines is
  uploaded (\<open>loaded_state\<close>), then two questions are asked and answered
  (\<open>answered_state\<close>); the assistant's messages have the ids \<open>a\<close> and \<open>b\<close>. The last
  file has 20 MB and one byte.
\<close>

definition demo_generate :: generateContent where
  "demo_generate p = Inr (Some ''{}'')"

definition demo_parse :: JSON_parse where
  "demo_parse t = Inr (Some sample_result)"

definition demo_stream :: sendMessageStream where
  "demo_stream chat message = Inr [Some ''An '', None, Some ''answer.'']"

definition small_file :: File where
  "small_file =
     \<lparr>file_name = ''small.csv'', file_size = 7, file_text = ''x,y'' @ [CHR 0x0A] @ ''1,2''\<rparr>"

definition big_file :: File where
  "big_file = \<lparr>file_name = ''big.csv'', file_size = 20971521, file_text = ''x,y''\<rparr>"

definition loaded_state :: AppState where
  "loaded_state = handleFileSelect demo_generate demo_parse small_file initial_state"

definition answered_state :: AppState where
  "answered_state =
     handleSendMessage demo_stream ''u2'' ''10:02:00'' ''b'' ''10:02:05'' ''And why?''
       (handleSendMessage demo_stream ''u1'' ''10:01:00'' ''a'' ''10:01:05'' ''What sells?''
          loaded_state)"

section \<open>ChatInput\<close>

text \<open>
  \<^verbatim>\<open>
  const handleSendMessage = useCallback(() => {
    if (inputValue.trim() && !isDisabled) {
      onSendMessage(inputValue.trim());
      setInputValue('');
    }
  }, [inputValue, onSendMessage, isDisabled]);
  \<close>
  The model returns the argument of the call of \<open>onSendMessage\<close>, if the call is made,
  and the new value of the input field. A string is truthy when it is not empty.
\<close>

definition ChatInput_handleSendMessage :: "string \<Rightarrow> bool \<Rightarrow> string option \<times> string" where
  "ChatInput_handleSendMessage inputValue isDisabled =
     (if trim_js inputValue \<noteq> [] \<and> \<not> isDisabled
      then (Some (trim_js inputValue), [])
      else (None, inputValue))"

section \<open>The model on small inputs\<close>

text \<open>Cells, keys and row objects of the examples, computed by rewriting.\<close>

lemmas number_eval =
  Number_js_def trim_js_def is_js_space_def parse_non_decimal_def parse_sign_def
  parse_unsigned_decimal_def parse_exponent_def is_digit_def digit_val_def mk_decimal_def
  strip_zeros_def digits_value_def radix_digit_def Let_def

lemma digit_char_table:
  "digit_char 0 = CHR ''0''" "digit_char 1 = CHR ''1''" "digit_char 2 = CHR ''2''"
  "digit_char 3 = CHR ''3''" "digit_char 4 = CHR ''4''" "digit_char 5 = CHR ''5''"
  "digit_char 6 = CHR ''6''" "digit_char 7 = CHR ''7''" "digit_char 8 = CHR ''8''"
  "digit_char 9 = CHR ''9''" "digit_char (Suc 0) = CHR ''1''"
  unfolding digit_char_def by code_simp+

lemma parseValue_numeric_cells:
  "parseValue (Some ''1'') = JNum (Finite False [1] 1)"
  "parseValue (Some ''2'') = JNum (Finite False [2] 1)"
  "parseValue (Some ''3'') = JNum (Finite False [3] 1)"
  "parseValue (Some ''4'') = JNum (Finite False [4] 1)"
  "parseValue (Some '' 12.50 '') = JNum (Finite False [1, 2, 5] 2)"
  by (simp_all add: parseValue_def isNaN_def ToNumber_def number_eval)

lemma parseValue_text_cells:
  "parseValue (Some ''foo'') = JStr ''foo''" "parseValue (Some ''bar'') = JStr ''bar''"
  "parseValue (Some ''a'') = JStr ''a''" "parseValue (Some ''b'') = JStr ''b''"
  "parseValue (Some ''jan'') = JStr ''jan''" "parseValue (Some ''n/a'') = JStr ''n/a''"
  "parseValue (Some '''') = JNum NaN"
  by (simp_all add: parseValue_def isNaN_def ToNumber_def number_eval)

lemma cell_keys:
  "String_js (parseValue (Some ''1'')) = ''1''" "String_js (parseValue (Some ''2'')) = ''2''"
  "String_js (parseValue (Some ''a'')) = ''a''" "String_js (parseValue (Some ''b'')) = ''b''"
  "String_js (parseValue (Some '''')) = ''NaN''"
  unfolding parseValue_numeric_cells parseValue_text_cells
  by (simp_all add: String_js_def Number_toString_def digit_char_table)

lemma jsnum_of_nat_digit: "0 < n \<Longrightarrow> n < 10 \<Longrightarrow> jsnum_of_nat n = Finite False [n] 1"
  by (simp add: jsnum_of_nat_def mk_decimal_def strip_zeros_def digits_of_nat.simps [of n])

lemma rowObject_1: "rowObject [h] [c] = obj_set Map.empty h (parseValue (Some c))"
  by (simp add: rowObject_def nth_opt_def)

lemma rowObject_2:
  "rowObject [h1, h2] [c1, c2]
     = obj_set (obj_set Map.empty h1 (parseValue (Some c1))) h2 (parseValue (Some c2))"
  by (simp add: rowObject_def nth_opt_def upt_rec)

lemma rowObject_3:
  "rowObject [h1, h2, h3] [c1, c2, c3]
     = obj_set (obj_set (obj_set Map.empty h1 (parseValue (Some c1))) h2 (parseValue (Some c2)))
         h3 (parseValue (Some c3))"
  by (simp add: rowObject_def nth_opt_def upt_rec)

lemma single_column_key:
  "String_js (obj_get (rowObject [''c''] [cell]) ''c'') = String_js (parseValue (Some cell))"
  by (simp add: rowObject_1 obj_set_def obj_get_def)

lemma index_keys_small:
  "is_array_index ''1''" "is_array_index ''2''" "index_value ''1'' = 1" "index_value ''2'' = 2"
  "\<not> is_array_index ''a''" "\<not> is_array_index ''b''"
  by (simp_all add: is_array_index_def index_value_def is_digit_def digit_val_def
      digits_value_def)

section \<open>Properties of the Chart Data Mapper\<close>

subsection \<open>Coerced values\<close>

text \<open>
  Claim C6, as the code has it. For every cell string, the per-cell coercion yields
  \<open>NaN\<close> when the cell trims to the empty string, keeps the cell as its original string
  when it is not a valid numeric literal, and otherwise converts it to the number it
  denotes.
\<close>

theorem parseValue_coercion:
  "parseValue (Some cell) =
     (if trim_js cell = [] then JNum NaN
      else if Number_js cell = NaN then JStr cell
      else JNum (Number_js cell))"
  by (simp add: parseValue_def isNaN_def ToNumber_def Let_def)

theorem parseValue_coercion_witness:
  "parseValue (Some '' 12.50 '') = JNum (Finite False [1, 2, 5] 2)
   \<and> parseValue (Some ''foo'') = JStr ''foo''
   \<and> parseValue (Some [CHR 0x20, CHR 0x09]) = JNum NaN"
  using parseValue_coercion [of "'' 12.50 ''"] parseValue_coercion [of "''foo''"]
    parseValue_coercion [of "[CHR 0x20, CHR 0x09]"]
  by (simp add: number_eval)

text \<open>
  Claim C6 as stated fails: a cell that trims to the empty string is not kept as its
  original string, it becomes \<open>NaN\<close>.
\<close>

theorem parseValue_empty_counterexample:
  "trim_js [] = [] \<and> parseValue (Some []) = JNum NaN \<and> parseValue (Some []) \<noteq> JStr []"
  by (simp add: parseValue_def trim_js_def)

text \<open>
  Every value stored in a row object is a result of \<open>parseValue\<close>, so for a value read
  from a row \<open>isNaN\<close> is false exactly when the value is a number: a stored string is
  one that \<open>Number\<close> maps to \<open>NaN\<close>, and what is read from the prototype converts to
  \<open>NaN\<close> too.
\<close>

lemma isNaN_parseValue: "isNaN (parseValue c) \<longleftrightarrow> \<not> is_number (parseValue c)"
  by (auto simp: parseValue_def isNaN_def ToNumber_def is_number_def Let_def split: option.splits)

lemma fold_obj_set_values:
  assumes "\<And>k v. m k = Some v \<Longrightarrow> \<exists>c. v = parseValue c"
    and "fold (\<lambda>(header, i) obj. obj_set obj header (parseValue (nth_opt r i))) xs m k = Some v"
  shows "\<exists>c. v = parseValue c"
  using assms
proof (induction xs arbitrary: m)
  case Nil
  then show ?case by simp
next
  case (Cons x xs)
  obtain h i where x: "x = (h, i)" by (cases x)
  show ?case
  proof (rule Cons.IH [of "obj_set m h (parseValue (nth_opt r i))"])
    fix k' v'
    assume "obj_set m h (parseValue (nth_opt r i)) k' = Some v'"
    then show "\<exists>c. v' = parseValue c"
      using Cons.prems(1) by (auto simp: obj_set_def split: if_splits)
  next
    show "fold (\<lambda>(header, i) obj. obj_set obj header (parseValue (nth_opt r i))) xs
            (obj_set m h (parseValue (nth_opt r i))) k = Some v"
      using Cons.prems(2) by (simp add: x)
  qed
qed

lemma fold_obj_set_proto:
  "m ''__proto__'' = None \<Longrightarrow>
   fold (\<lambda>(header, i) obj. obj_set obj header (parseValue (nth_opt r i))) xs m ''__proto__'' = None"
  by (induction xs arbitrary: m) (auto simp: obj_set_def)

lemma rowObject_values: "rowObject hs r k = Some v \<Longrightarrow> \<exists>c. v = parseValue c"
  unfolding rowObject_def by (rule fold_obj_set_values [where m = Map.empty]) simp_all

lemma rowObject_proto: "rowObject hs r ''__proto__'' = None"
  unfolding rowObject_def by (rule fold_obj_set_proto) simp

lemma isNaN_rowObject:
  "isNaN (obj_get (rowObject hs r) k) \<longleftrightarrow> \<not> is_number (obj_get (rowObject hs r) k)"
proof (cases "rowObject hs r k")
  case None
  then show ?thesis by (simp add: obj_get_def isNaN_def ToNumber_def is_number_def)
next
  case (Some v)
  then obtain c where "v = parseValue c" using rowObject_values by blast
  with Some show ?thesis by (simp add: obj_get_def isNaN_parseValue)
qed

lemma isNaN_rawRows:
  "row \<in> set (rawRows data) \<Longrightarrow> isNaN (obj_get row k) \<longleftrightarrow> \<not> is_number (obj_get row k)"
  by (auto simp: rawRows_def isNaN_rowObject)

lemma is_number_not_proto:
  "row \<in> set (rawRows data) \<Longrightarrow> is_number (obj_get row k) \<Longrightarrow> k \<noteq> ''__proto__''"
  by (auto simp: rawRows_def rowObject_proto obj_get_def is_number_def proto_names_def)

text \<open>The value a row object holds for a header that occurs once is the coerced cell at
  the header's position.\<close>

lemma fold_obj_set_other:
  "h \<notin> fst ` set xs \<Longrightarrow>
   fold (\<lambda>(header, i) obj. obj_set obj header (parseValue (nth_opt r i))) xs m h = m h"
  by (induction xs arbitrary: m) (auto simp: obj_set_def)

lemma fold_obj_set_column:
  assumes "distinct (map fst xs)" and "(h, i) \<in> set xs" and "h \<noteq> ''__proto__''"
  shows "fold (\<lambda>(header, i) obj. obj_set obj header (parseValue (nth_opt r i))) xs m h
       = Some (parseValue (nth_opt r i))"
  using assms
proof (induction xs arbitrary: m)
  case Nil
  then show ?case by simp
next
  case (Cons x xs)
  show ?case
  proof (cases "x = (h, i)")
    case True
    then have "h \<notin> fst ` set xs" using Cons.prems(1) by auto
    moreover have "obj_set m h (parseValue (nth_opt r i)) h = Some (parseValue (nth_opt r i))"
      using Cons.prems(3) by (simp add: obj_set_def)
    ultimately show ?thesis using True by (simp add: fold_obj_set_other)
  next
    case False
    then have "(h, i) \<in> set xs" using Cons.prems(2) by auto
    then show ?thesis using Cons.IH Cons.prems by (auto simp: case_prod_beta)
  qed
qed

lemma rowObject_column:
  assumes "distinct hs" and "i < length hs" and "hs ! i \<noteq> ''__proto__''"
  shows "obj_get (rowObject hs r) (hs ! i) = parseValue (nth_opt r i)"
proof -
  have "(hs ! i, i) \<in> set (zip hs [0..<length hs])"
    using assms(2) by (auto simp: set_zip)
  then have "rowObject hs r (hs ! i) = Some (parseValue (nth_opt r i))"
    unfolding rowObject_def using assms(1,3) by (intro fold_obj_set_column) simp_all
  then show ?thesis by (simp add: obj_get_def)
qed

subsection \<open>Scatter charts\<close>

lemma numeric_filter:
  "filter (\<lambda>row. \<not> isNaN (obj_get row x) \<and> \<not> isNaN (obj_get row y)) (rawRows data)
     = filter (\<lambda>row. is_number (obj_get row x) \<and> is_number (obj_get row y)) (rawRows data)"
  by (rule filter_cong) (simp_all add: isNaN_rawRows)

text \<open>
  Claim C7. For every scatter chart spec with exactly two columns and every table, the
  mapper emits one record per row that holds the values of both columns, and only for the
  rows where both selected values are numbers; a row where either value is not a number is
  dropped. The records come in the order of the rows.
\<close>

theorem scatter_both_numeric:
  assumes "type cp = ''scatter''" and "columns cp = [xCol, yCol]"
  shows "prepareChartData cp data =
           map (\<lambda>row. [xCol \<mapsto> obj_get row xCol, yCol \<mapsto> obj_get row yCol])
             (filter (\<lambda>row. is_number (obj_get row xCol) \<and> is_number (obj_get row yCol))
                (rawRows data))"
  using assms by (simp add: prepareChartData_def numeric_filter)

theorem scatter_both_numeric_witness:
  "type (chart ''scatter'' [''x'', ''y'']) = ''scatter''
   \<and> columns (chart ''scatter'' [''x'', ''y'']) = [''x'', ''y'']
   \<and> prepareChartData (chart ''scatter'' [''x'', ''y''])
        \<lparr>headers = [''x'', ''y''],
         rows = [[''1'', ''2''], [''foo'', ''3''], [''4'', ''bar'']]\<rparr>
       = [[''x'' \<mapsto> JNum (Finite False [1] 1), ''y'' \<mapsto> JNum (Finite False [2] 1)]]"
  using scatter_both_numeric [of "chart ''scatter'' [''x'', ''y'']" "''x''" "''y''"
      "\<lparr>headers = [''x'', ''y''], rows = [[''1'', ''2''], [''foo'', ''3''], [''4'', ''bar'']]\<rparr>"]
  by (simp add: chart_def rawRows_def rowObject_2 obj_set_def obj_get_def
      parseValue_numeric_cells parseValue_text_cells is_number_def)

text \<open>The same in terms of the cells, for a table whose header names are distinct: the
  two columns are the ones at positions \<open>i\<close> and \<open>j\<close>.\<close>

lemma scatter_cells:
  assumes "type cp = ''scatter''"
    and "columns cp = [headers data ! i, headers data ! j]"
    and "distinct (headers data)"
    and "i < length (headers data)" and "j < length (headers data)"
    and "headers data ! i \<noteq> ''__proto__''" and "headers data ! j \<noteq> ''__proto__''"
  shows "prepareChartData cp data =
           map (\<lambda>r. [headers data ! i \<mapsto> parseValue (nth_opt r i),
                      headers data ! j \<mapsto> parseValue (nth_opt r j)])
             (filter (\<lambda>r. is_number (parseValue (nth_opt r i))
                          \<and> is_number (parseValue (nth_opt r j)))
                (rows data))"
proof -
  have x: "obj_get (rowObject (headers data) r) (headers data ! i) = parseValue (nth_opt r i)"
    and y: "obj_get (rowObject (headers data) r) (headers data ! j) = parseValue (nth_opt r j)"
    for r
    using assms(3-7) by (simp_all add: rowObject_column)
  show ?thesis
    using assms(1,2)
    by (simp add: prepareChartData_def rawRows_def filter_map comp_def x y isNaN_parseValue)
qed

subsection \<open>Line charts\<close>

lemma series_step:
  assumes "row \<in> set (rawRows data)"
  shows "(\<lambda>yCol obj. if \<not> isNaN (obj_get row yCol)
                       then obj_set obj yCol (obj_get row yCol) else obj)
       = (\<lambda>yCol obj. if is_number (obj_get row yCol)
                       then obj(yCol \<mapsto> obj_get row yCol) else obj)"
proof (intro ext)
  fix yCol :: string and obj :: jsobject and k :: string
  show "(if \<not> isNaN (obj_get row yCol) then obj_set obj yCol (obj_get row yCol) else obj) k
      = (if is_number (obj_get row yCol) then obj(yCol \<mapsto> obj_get row yCol) else obj) k"
    using assms is_number_not_proto [OF assms, of yCol]
    by (simp add: isNaN_rawRows obj_set_def)
qed

lemma fold_numeric_series:
  "fold (\<lambda>y obj. if is_number (obj_get row y) then obj(y \<mapsto> obj_get row y) else obj) ys m
     = (\<lambda>k. if k \<in> set ys \<and> is_number (obj_get row k) then Some (obj_get row k) else m k)"
  by (induction ys arbitrary: m) (auto simp: fun_eq_iff)

lemma fold_series:
  assumes "row \<in> set (rawRows data)"
  shows "fold (\<lambda>yCol obj. if \<not> isNaN (obj_get row yCol)
                          then obj_set obj yCol (obj_get row yCol) else obj) ys m
       = (\<lambda>k. if k \<in> set ys \<and> is_number (obj_get row k) then Some (obj_get row k) else m k)"
  by (simp only: series_step [OF assms] fold_numeric_series)

text \<open>
  Claim C8. For every line chart spec with at least two columns and every table, the
  mapper emits one record per row, in the order of the rows. The record holds the value of
  the first column under that column's name and, for each series column, that column's
  value exactly when the value is a number for that row; a series column whose value is
  not a number has no key in the record (unless it is the first column itself).
\<close>

theorem line_series_numeric_only:
  assumes "type cp = ''line''" and "columns cp = xCol # yCols" and "yCols \<noteq> []"
  shows "prepareChartData cp data =
           map (\<lambda>row k. if k \<in> set yCols \<and> is_number (obj_get row k) \<or> k = xCol
                        then Some (obj_get row k) else None)
             (rawRows data)"
proof -
  have "fold (\<lambda>yCol obj. if \<not> isNaN (obj_get row yCol)
                          then obj_set obj yCol (obj_get row yCol) else obj)
          yCols [xCol \<mapsto> obj_get row xCol]
      = (\<lambda>k. if k \<in> set yCols \<and> is_number (obj_get row k) \<or> k = xCol
              then Some (obj_get row k) else None)"
    if "row \<in> set (rawRows data)" for row
    using that by (auto simp: fold_series [of row data])
  then show ?thesis using assms by (simp add: prepareChartData_def)
qed

theorem line_series_numeric_only_witness:
  "type (chart ''line'' [''t'', ''a'', ''b'']) = ''line''
   \<and> columns (chart ''line'' [''t'', ''a'', ''b'']) = [''t'', ''a'', ''b'']
   \<and> [''a'', ''b''] \<noteq> []
   \<and> prepareChartData (chart ''line'' [''t'', ''a'', ''b''])
        \<lparr>headers = [''t'', ''a'', ''b''], rows = [[''jan'', ''2'', ''n/a'']]\<rparr>
       = [[''t'' \<mapsto> JStr ''jan'', ''a'' \<mapsto> JNum (Finite False [2] 1)]]"
  using line_series_numeric_only [of "chart ''line'' [''t'', ''a'', ''b'']" "''t''" "[''a'', ''b'']"
      "\<lparr>headers = [''t'', ''a'', ''b''], rows = [[''jan'', ''2'', ''n/a'']]\<rparr>"]
  by (auto simp: chart_def rawRows_def rowObject_3 obj_set_def obj_get_def fun_eq_iff
      parseValue_numeric_cells parseValue_text_cells is_number_def)

subsection \<open>Category counts\<close>

lemma first_seen_snoc:
  "first_seen (xs @ [x]) = (if x \<in> set xs then first_seen xs else first_seen xs @ [x])"
  by (simp add: first_seen_def)

lemma set_first_seen: "set (first_seen xs) = set xs"
  by (simp add: first_seen_def)

lemma distinct_first_seen: "distinct (first_seen xs)"
  by (simp add: first_seen_def)

lemma fold_conditional_step:
  "fold (\<lambda>row counts. let value = f row in if P value then count_step value counts else counts)
     rs acc
   = fold count_step (filter P (map f rs)) acc"
  by (induction rs arbitrary: acc) (simp_all add: Let_def)

lemma count_step_plain:
  assumes "value \<notin> set proto_names"
  shows "count_step value counts =
           AList.update value
             (case map_of counts value of
                Some (Count n) \<Rightarrow> Count (n + 1)
              | Some (Junk s) \<Rightarrow> Junk (s @ ''1'')
              | None \<Rightarrow> Count 1) counts"
proof -
  have "value \<noteq> ''__proto__''" using assms by (auto simp: proto_names_def)
  then show ?thesis using assms
    by (simp add: count_step_def split: option.splits count.splits)
qed

lemma counts_invariant:
  assumes "set ks \<inter> set proto_names = {}"
  shows "map fst (fold count_step ks []) = first_seen ks
       \<and> (\<forall>k. map_of (fold count_step ks []) k
               = (if k \<in> set ks then Some (Count (count_list ks k)) else None))"
  using assms
proof (induction ks rule: rev_induct)
  case Nil
  show ?case by (simp add: first_seen_def)
next
  case (snoc x ks)
  define acc where "acc = fold count_step ks []"
  have x: "x \<notin> set proto_names" and ks: "set ks \<inter> set proto_names = {}"
    using snoc.prems by auto
  have keys: "map fst acc = first_seen ks"
    and vals: "\<And>k. map_of acc k = (if k \<in> set ks then Some (Count (count_list ks k)) else None)"
    using snoc.IH [OF ks] by (simp_all add: acc_def)
  define c where "c = (if x \<in> set ks then Count (count_list ks x + 1) else Count 1)"
  have step: "fold count_step (ks @ [x]) [] = AList.update x c acc"
    by (simp add: acc_def [symmetric] count_step_plain [OF x] vals c_def)
  have "map fst (AList.update x c acc) = first_seen (ks @ [x])"
    by (simp add: update_keys keys set_first_seen first_seen_snoc)
  moreover have "map_of (AList.update x c acc) k
      = (if k \<in> set (ks @ [x]) then Some (Count (count_list (ks @ [x]) k)) else None)" for k
    by (simp add: update_conv' vals c_def)
  ultimately show ?case by (simp only: step) blast
qed

lemma map_filter_total:
  "(\<And>x. x \<in> set xs \<Longrightarrow> g x = Some (h x)) \<Longrightarrow> List.map_filter g xs = map h xs"
  by (induction xs) (simp_all add: List.map_filter_simps)

lemma set_own_keys_order: "set (own_keys_order ks) = set ks"
  by (auto simp: own_keys_order_def)

lemma Object_entries_counts:
  assumes "set ks \<inter> set proto_names = {}"
  shows "Object_entries (fold count_step ks [])
       = map (\<lambda>k. (k, Count (count_list ks k))) (own_keys_order (first_seen ks))"
proof -
  note inv = counts_invariant [OF assms]
  have keys: "map fst (fold count_step ks []) = first_seen ks" using inv by simp
  have "List.map_filter (\<lambda>k. map_option (Pair k) (map_of (fold count_step ks []) k))
          (own_keys_order (first_seen ks))
      = map (\<lambda>k. (k, Count (count_list ks k))) (own_keys_order (first_seen ks))"
  proof (rule map_filter_total)
    fix k assume "k \<in> set (own_keys_order (first_seen ks))"
    then have "k \<in> set ks" by (simp add: set_own_keys_order set_first_seen)
    then show "map_option (Pair k) (map_of (fold count_step ks []) k)
        = Some (k, Count (count_list ks k))"
      using inv by simp
  qed
  then show ?thesis by (simp only: Object_entries_def keys)
qed

text \<open>
  Claim C2, as the code has it. For a bar chart spec with one column, the key of a row is
  the string form of the coerced value of that column; rows whose key is \<open>"NaN"\<close> or
  \<open>"undefined"\<close> (empty and absent cells, and cells with those texts) are left out. For
  every table none of whose keys names a member of \<open>Object.prototype\<close>, the mapper emits
  one record \<open>{name, count}\<close> per distinct key, with the number of rows that have the key
  as count, in the order in which JavaScript enumerates own properties: the keys that are
  array indices first, in ascending numeric order, then the other keys in first-seen
  order. (The key of a numeric cell is the printed form of its number, so \<open>1\<close> and
  \<open>1.0\<close> are one key.)
\<close>

theorem bar_counts_in_property_order:
  assumes "type cp = ''bar''" and "columns cp = [column]"
    and "set (bar_keys column data) \<inter> set proto_names = {}"
  shows "prepareChartData cp data =
           map (\<lambda>k. bar_record k (JNum (jsnum_of_nat (count_list (bar_keys column data) k))))
             (own_keys_order (first_seen (bar_keys column data)))"
proof -
  have "fold (\<lambda>row counts. let value = String_js (obj_get row column) in
                 if value \<noteq> ''NaN'' \<and> value \<noteq> ''undefined''
                 then count_step value counts else counts) (rawRows data) []
      = fold count_step (bar_keys column data) []"
    unfolding bar_keys_def by (rule fold_conditional_step)
  then show ?thesis
    using assms(1,2)
    by (simp add: prepareChartData_def Object_entries_counts [OF assms(3)] bar_record_def
        count_value_def comp_def)
qed


lemma bar_keys_example:
  "bar_keys ''c'' \<lparr>headers = [''c''], rows = [[''a''], [''a''], [''b''], ['''']]\<rparr>
     = [''a'', ''a'', ''b'']"
  by (simp add: bar_keys_def rawRows_def single_column_key cell_keys)

theorem bar_counts_in_property_order_witness:
  "type (chart ''bar'' [''c'']) = ''bar'' \<and> columns (chart ''bar'' [''c'']) = [''c'']
   \<and> set (bar_keys ''c'' \<lparr>headers = [''c''], rows = [[''a''], [''a''], [''b''], ['''']]\<rparr>)
        \<inter> set proto_names = {}
   \<and> prepareChartData (chart ''bar'' [''c''])
        \<lparr>headers = [''c''], rows = [[''a''], [''a''], [''b''], ['''']]\<rparr>
       = [bar_record ''a'' (JNum (jsnum_of_nat 2)), bar_record ''b'' (JNum (jsnum_of_nat 1))]"
  using bar_counts_in_property_order [of "chart ''bar'' [''c'']" "''c''"
      "\<lparr>headers = [''c''], rows = [[''a''], [''a''], [''b''], ['''']]\<rparr>"]
  by (simp add: chart_def bar_keys_example proto_names_def first_seen_def own_keys_order_def
      index_keys_small numeral_2_eq_2)

text \<open>
  Claim C2 as stated fails on the order: for a column with the values \<open>["2", "1"]\<close> the
  first-seen order of the keys is \<open>2, 1\<close>, and the mapper emits the record of \<open>1\<close> before
  the record of \<open>2\<close>.
\<close>

theorem bar_first_seen_counterexample:
  "first_seen (bar_keys ''c'' \<lparr>headers = [''c''], rows = [[''2''], [''1'']]\<rparr>) = [''2'', ''1'']
   \<and> prepareChartData (chart ''bar'' [''c'']) \<lparr>headers = [''c''], rows = [[''2''], [''1'']]\<rparr>
       = [bar_record ''1'' (JNum (jsnum_of_nat 1)), bar_record ''2'' (JNum (jsnum_of_nat 1))]"
proof -
  define table where "table = \<lparr>headers = [''c''], rows = [[''2''], [''1'']]\<rparr>"
  have keys: "bar_keys ''c'' table = [''2'', ''1'']"
    by (simp add: table_def bar_keys_def rawRows_def single_column_key cell_keys)
  have counts: "count_step ''1'' (count_step ''2'' []) = [(''2'', Count 1), (''1'', Count 1)]"
    by (simp add: count_step_def proto_names_def)
  have entries: "Object_entries [(''2'', Count 1), (''1'', Count 1)]
      = [(''1'', Count 1), (''2'', Count 1)]"
    by (simp add: Object_entries_def own_keys_order_def index_keys_small)
  have fold: "fold count_step [''2'', ''1''] [] = count_step ''1'' (count_step ''2'' [])"
    by simp
  have "prepareChartData (chart ''bar'' [''c'']) table
      = map (\<lambda>(name, count). [''name'' \<mapsto> JStr name, ''count'' \<mapsto> count_value count])
          (Object_entries (fold count_step (bar_keys ''c'' table) []))"
    by (simp add: prepareChartData_def chart_def bar_keys_def fold_conditional_step)
  also have "\<dots> = map (\<lambda>(name, count). [''name'' \<mapsto> JStr name, ''count'' \<mapsto> count_value count])
          [(''1'', Count 1), (''2'', Count 1)]"
    by (simp only: keys fold counts entries)
  finally have "prepareChartData (chart ''bar'' [''c'']) table
      = [bar_record ''1'' (JNum (jsnum_of_nat 1)), bar_record ''2'' (JNum (jsnum_of_nat 1))]"
    by (simp add: bar_record_def count_value_def)
  then show ?thesis by (simp add: keys first_seen_def flip: table_def)
qed

text \<open>A key that names a member of \<open>Object.prototype\<close> gets a string as its count: the
  read of \<open>counts[value]\<close> finds the inherited function.\<close>

lemma bar_constructor_key:
  "prepareChartData (chart ''bar'' [''c'']) \<lparr>headers = [''c''], rows = [[''constructor'']]\<rparr>
     = [bar_record ''constructor'' (JStr ''function Object() { [native code] }1'')]"
proof -
  define table where "table = \<lparr>headers = [''c''], rows = [[''constructor'']]\<rparr>"
  have cell: "parseValue (Some ''constructor'') = JStr ''constructor''"
    by (simp add: parseValue_def isNaN_def ToNumber_def number_eval)
  have key: "String_js (parseValue (Some ''constructor'')) = ''constructor''"
    by (simp add: cell String_js_def)
  have keys: "bar_keys ''c'' table = [''constructor'']"
    by (simp add: table_def bar_keys_def rawRows_def single_column_key key)
  have counts: "fold count_step [''constructor''] []
      = [(''constructor'', Junk ''function Object() { [native code] }1'')]"
    by (simp add: count_step_def proto_names_def String_js_def)
  have entries: "Object_entries [(''constructor'', Junk ''function Object() { [native code] }1'')]
      = [(''constructor'', Junk ''function Object() { [native code] }1'')]"
    by (simp add: Object_entries_def own_keys_order_def is_array_index_def is_digit_def)
  have "prepareChartData (chart ''bar'' [''c'']) table
      = map (\<lambda>(name, count). [''name'' \<mapsto> JStr name, ''count'' \<mapsto> count_value count])
          (Object_entries (fold count_step (bar_keys ''c'' table) []))"
    by (simp add: prepareChartData_def chart_def bar_keys_def fold_conditional_step)
  also have "\<dots> = map (\<lambda>(name, count). [''name'' \<mapsto> JStr name, ''count'' \<mapsto> count_value count])
          [(''constructor'', Junk ''function Object() { [native code] }1'')]"
    by (simp only: keys counts entries)
  finally show ?thesis
    by (simp add: bar_record_def count_value_def flip: table_def)
qed

section \<open>Properties of the base64 helpers\<close>

lemma div_262144: "(n::nat) div 262144 = n div 4096 div 64"
  by (simp add: div_mult2_eq [symmetric])

lemma div_4096: "(n::nat) div 4096 = n div 64 div 64"
  by (simp add: div_mult2_eq [symmetric])

lemma split24_a: "(n::nat) div 262144 * 64 + n div 4096 mod 64 = n div 4096"
  unfolding div_262144 by (rule div_mult_mod_eq)

lemma split24_b:
  "(n::nat) div 262144 * 4096 + n div 4096 mod 64 * 64 + n div 64 mod 64 = n div 64"
proof -
  have "n div 262144 * 4096 + n div 4096 mod 64 * 64 = (n div 262144 * 64 + n div 4096 mod 64) * 64"
    by (simp add: algebra_simps)
  also have "\<dots> = n div 4096 * 64" by (simp only: split24_a)
  also have "\<dots> = n div 64 div 64 * 64" by (simp only: div_4096)
  finally show ?thesis by (simp only: div_mult_mod_eq)
qed

lemma split24_c:
  "(n::nat) div 262144 * 262144 + n div 4096 mod 64 * 4096 + n div 64 mod 64 * 64 + n mod 64 = n"
proof -
  have "n div 262144 * 262144 + n div 4096 mod 64 * 4096 + n div 64 mod 64 * 64
      = (n div 262144 * 4096 + n div 4096 mod 64 * 64 + n div 64 mod 64) * 64"
    by (simp add: algebra_simps)
  also have "\<dots> = n div 64 * 64" by (simp only: split24_b)
  finally show ?thesis by (simp only: div_mult_mod_eq)
qed


lemma parts24:
  fixes a b c :: nat
  assumes "a < 256" "b < 256" "c < 256"
  shows "(a * 65536 + b * 256 + c) div 65536 = a"
    and "(a * 65536 + b * 256 + c) div 256 mod 256 = b"
    and "(a * 65536 + b * 256 + c) mod 256 = c"
    and "(a * 65536 + b * 256 + c) < 16777216"
proof -
  define k where "k = a * 256 + b"
  define n where "n = a * 65536 + b * 256 + c"
  have e: "n = k * 256 + c" by (simp add: k_def n_def)
  have m: "n mod 256 = c" unfolding e using assms(3) by simp
  have q: "n div 256 = k" unfolding e using assms(3) by simp
  have r: "k mod 256 = b" "k div 256 = a" unfolding k_def using assms(2) by simp_all
  have d: "n div 65536 = n div 256 div 256" by (simp add: div_mult2_eq [symmetric])
  show "(a * 65536 + b * 256 + c) mod 256 = c" using m by (simp only: n_def)
  show "(a * 65536 + b * 256 + c) div 256 mod 256 = b" using q r by (simp only: n_def)
  show "(a * 65536 + b * 256 + c) div 65536 = a" using d q r by (simp only: n_def)
  show "(a * 65536 + b * 256 + c) < 16777216" using assms by simp
qed

lemma sext_bound:
  fixes n :: nat
  assumes "n < 16777216"
  shows "n div 262144 < 64"
  using assms by simp


lemma of_char_less_256: "(of_char c :: nat) < 256"
proof -
  have "(of_char c :: nat) mod 256 = of_char c" by simp
  then show ?thesis by (metis mod_less_divisor zero_less_numeral)
qed

lemma group24_parts:
  "group24 a b c div 65536 = of_char a"
  "group24 a b c div 256 mod 256 = of_char b"
  "group24 a b c mod 256 = of_char c"
  "group24 a b c < 16777216"
  unfolding group24_def
  by (rule parts24 [OF of_char_less_256 of_char_less_256 of_char_less_256])+

lemma group24_sextet_bound: "group24 a b c div 262144 < 64"
  by (rule sext_bound) (rule group24_parts)

lemma b64_index_char: "i < 64 \<Longrightarrow> b64_index (b64_char i) = Some i"
  by (auto simp: b64_index_def b64_char_def Let_def)

lemma b64_index_char_defined: "b64_index (b64_char i) \<noteq> None"
  by (auto simp: b64_index_def b64_char_def Let_def)

lemma b64_char_not_pad: "b64_char i \<noteq> CHR ''=''"
proof
  assume "b64_char i = CHR ''=''"
  then have "b64_index (b64_char i) = b64_index CHR ''=''" by simp
  then show False using b64_index_char_defined [of i] by (simp add: b64_index_def)
qed

lemma b64_char_not_ws: "\<not> is_ascii_whitespace (b64_char i)"
proof
  assume "is_ascii_whitespace (b64_char i)"
  then have "b64_index (b64_char i) = None"
    by (auto simp: is_ascii_whitespace_def b64_index_def)
  then show False using b64_index_char_defined by blast
qed

lemma pad_not_ws: "\<not> is_ascii_whitespace CHR ''=''"
  by (simp add: is_ascii_whitespace_def)

lemma btoa_no_ws: "filter (\<lambda>c. \<not> is_ascii_whitespace c) (btoa s) = btoa s"
  by (induction s rule: btoa.induct) (simp_all add: Let_def b64_char_not_ws pad_not_ws)

lemma length_btoa: "length (btoa s) mod 4 = 0"
  by (induction s rule: btoa.induct) (simp_all add: Let_def)

lemma btoa_Nil_iff: "btoa s = [] \<longleftrightarrow> s = []"
  by (cases s rule: btoa.cases) (simp_all add: Let_def)

lemma strip_padding_append:
  "2 \<le> length t \<Longrightarrow> strip_padding (p @ t) = p @ strip_padding t"
  by (auto simp: strip_padding_def butlast_append)

lemma strip_padding_btoa: "strip_padding (btoa s) = map b64_char (sextets s)"
proof (induction s rule: btoa.induct)
  case 1
  show ?case by (simp add: strip_padding_def)
next
  case (2 a)
  show ?case by (simp add: strip_padding_def Let_def)
next
  case (3 a b)
  show ?case by (simp add: strip_padding_def Let_def b64_char_not_pad)
next
  case (4 a b c rest)
  show ?case
  proof (cases "rest = []")
    case True
    then show ?thesis by (simp add: strip_padding_def Let_def b64_char_not_pad)
  next
    case False
    then have "btoa rest \<noteq> []" by (simp add: btoa_Nil_iff)
    moreover have "length (btoa rest) mod 4 = 0" by (rule length_btoa)
    ultimately have "2 \<le> length (btoa rest)"
      by (cases "btoa rest") (auto simp: Suc_le_eq)
    then have "strip_padding ([b64_char (group24 a b c div 262144),
          b64_char (group24 a b c div 4096 mod 64), b64_char (group24 a b c div 64 mod 64),
          b64_char (group24 a b c mod 64)] @ btoa rest) =
        [b64_char (group24 a b c div 262144),
          b64_char (group24 a b c div 4096 mod 64), b64_char (group24 a b c div 64 mod 64),
          b64_char (group24 a b c mod 64)] @ strip_padding (btoa rest)"
      by (rule strip_padding_append)
    then show ?thesis using 4 by (simp add: Let_def)
  qed
qed

lemma sextets_less: "x \<in> set (sextets s) \<Longrightarrow> x < 64"
  by (induction s rule: sextets.induct) (auto simp: Let_def group24_sextet_bound)

lemma length_sextets: "length (sextets s) mod 4 \<noteq> Suc 0"
  by (induction s rule: sextets.induct) (simp_all add: Let_def)

lemma those_index_char:
  "\<forall>x\<in>set xs. x < 64 \<Longrightarrow> those (map b64_index (map b64_char xs)) = Some xs"
  by (induction xs) (simp_all add: b64_index_char)

lemma decode_sextets_sextets: "decode_sextets (sextets s) = s"
proof (induction s rule: sextets.induct)
  case 1
  show ?case by simp
next
  case (2 a)
  define n where "n = group24 a (CHR 0x00) (CHR 0x00)"
  have "(n div 262144 * 64 + n div 4096 mod 64) div 16 = n div 4096 div 16"
    by (simp only: split24_a)
  also have "\<dots> = n div 65536" by (simp add: div_mult2_eq [symmetric])
  also have "\<dots> = of_char a" unfolding n_def by (rule group24_parts)
  finally have "[char_of ((n div 262144 * 64 + n div 4096 mod 64) div 16)] = [a]"
    by (simp only: char_of_char)
  then show ?case unfolding sextets.simps decode_sextets.simps Let_def n_def .
next
  case (3 a b)
  define n where "n = group24 a b (CHR 0x00)"
  define m where "m = (n div 262144 * 4096 + n div 4096 mod 64 * 64 + n div 64 mod 64) div 4"
  have "m = n div 64 div 4" unfolding m_def by (simp only: split24_b)
  also have "\<dots> = n div 256" by (simp add: div_mult2_eq [symmetric])
  finally have m: "m = n div 256" .
  have "m div 256 = n div 65536" unfolding m by (simp add: div_mult2_eq [symmetric])
  then have "m div 256 = of_char a" "m mod 256 = of_char b"
    unfolding m n_def by (simp_all only: group24_parts)
  then have "[char_of (m div 256), char_of (m mod 256)] = [a, b]"
    by (simp only: char_of_char)
  then show ?case unfolding sextets.simps decode_sextets.simps Let_def n_def m_def .
next
  case (4 a b c rest)
  define n where "n = group24 a b c"
  define m where "m = n div 262144 * 262144 + n div 4096 mod 64 * 4096 + n div 64 mod 64 * 64 + n mod 64"
  have "m = n" unfolding m_def by (rule split24_c)
  then have "m div 65536 = of_char a" "m div 256 mod 256 = of_char b" "m mod 256 = of_char c"
    unfolding n_def by (simp_all only: group24_parts)
  then have "[char_of (m div 65536), char_of (m div 256 mod 256), char_of (m mod 256)] = [a, b, c]"
    by (simp only: char_of_char)
  then show ?case using 4
    unfolding sextets.simps decode_sextets.simps Let_def n_def m_def append.simps
    by simp
qed

lemma atob_btoa: "atob (btoa s) = Some s"
proof -
  have "those (map b64_index (map b64_char (sextets s))) = Some (sextets s)"
    by (rule those_index_char) (simp add: sextets_less)
  then show ?thesis
    by (simp add: atob_def btoa_no_ws length_btoa strip_padding_btoa length_sextets
        decode_sextets_sextets del: map_map)
qed

text \<open>
  Claim C9. For every byte array, the base64 helpers round-trip: decoding the encoding of
  the array succeeds and gives the array back.
\<close>

theorem decode_encode: "decode (encode b) = Some b"
proof -
  have "(word_of_nat (of_char (char_of (unat x) :: char)) :: 8 word) = x" for x :: "8 word"
  proof -
    have "unat x < 2 ^ LENGTH(8)" by (rule unsigned_less)
    then have "unat x < 256" by simp
    then show ?thesis by simp
  qed
  then show ?thesis by (simp add: decode_def encode_def atob_btoa comp_def)
qed

theorem decode_encode_witness:
  "encode [72, 105] = ''SGk='' \<and> decode ''SGk='' = Some [72, 105]"
proof -
  have "encode [72, 105] = ''SGk=''"
    by (simp add: encode_def group24_def b64_char_def Let_def) code_simp
  then show ?thesis using decode_encode [of "[72, 105]"] by simp
qed

section \<open>Properties of the Analysis Client\<close>

lemma csvContent_sample:
  "csvContent data =
     join_js [CHR 0x0A] (map (join_js '','') (headers data # take 100 (rows data)))"
  by (simp add: csvContent_def maxRowsForPrompt_def)

lemma truncationNote_iff:
  "truncationNote data = (if 100 < length (rows data) then Some truncation_text else None)"
  by (simp add: truncationNote_def maxRowsForPrompt_def)

text \<open>
  Claim C3. Let the model answer the prompt that embeds, between the fixed head and tail
  of the template, exactly the header line followed by the lines of the first 100 data
  rows, in order, and let the answer parse to a result. Then for a table with more than
  100 data rows, \<open>analyzeCsvData\<close> returns that result with the truncation note put in
  front of its notes (the sample then has exactly 100 rows); for a table with at most 100
  data rows it returns the result as parsed, with no note added. The model is consulted at
  no other prompt: nothing else is assumed of it.
\<close>

theorem analyze_sample_and_note:
  assumes "generate (prompt_head
             @ join_js [CHR 0x0A] (map (join_js '','') (headers data # take 100 (rows data)))
             @ prompt_tail) = Inr (Some text)"
    and "parse (strip_code_fence text) = Inr (Some result)"
  shows "(100 < length (rows data) \<longrightarrow>
            length (take 100 (rows data)) = 100
            \<and> analyzeCsvData generate parse data
                = Inr (Some (add_truncation_note truncation_text result), Some truncation_text)
            \<and> (\<exists>notes. analysisNotes (add_truncation_note truncation_text result)
                          = Some (truncation_text # notes)))
       \<and> (length (rows data) \<le> 100 \<longrightarrow>
            analyzeCsvData generate parse data = Inr (Some result, None))"
proof -
  have "analyzeCsvData generate parse data =
      (case truncationNote data of
         None \<Rightarrow> Inr (Some result, None)
       | Some note \<Rightarrow> Inr (Some (add_truncation_note note result), Some note))"
    using assms by (simp add: analyzeCsvData_def prompt_def csvContent_sample)
  then show ?thesis
    by (simp add: truncationNote_iff add_truncation_note_def)
qed


theorem analyze_sample_and_note_witness:
  "(100 < length (rows \<lparr>headers = [''x''], rows = replicate 101 [''7'']\<rparr>)
    \<and> analyzeCsvData (\<lambda>p. Inr (Some ''{}'')) (\<lambda>s. Inr (Some sample_result))
          \<lparr>headers = [''x''], rows = replicate 101 [''7'']\<rparr>
        = Inr (Some (sample_result\<lparr>analysisNotes := Some [truncation_text, ''model note'']\<rparr>),
               Some truncation_text))
   \<and> (length (rows \<lparr>headers = [''x''], rows = [[''7'']]\<rparr>) \<le> 100
    \<and> analyzeCsvData (\<lambda>p. Inr (Some ''{}'')) (\<lambda>s. Inr (Some sample_result))
          \<lparr>headers = [''x''], rows = [[''7'']]\<rparr>
        = Inr (Some sample_result, None))"
  using analyze_sample_and_note [of "\<lambda>p. Inr (Some ''{}'')"
      "\<lparr>headers = [''x''], rows = replicate 101 [''7'']\<rparr>" "''{}''"
      "\<lambda>s. Inr (Some sample_result)" sample_result]
    analyze_sample_and_note [of "\<lambda>p. Inr (Some ''{}'')"
      "\<lparr>headers = [''x''], rows = [[''7'']]\<rparr>" "''{}''"
      "\<lambda>s. Inr (Some sample_result)" sample_result]
  by (simp add: add_truncation_note_def sample_result_def)

lemma truncation_text_100:
  "truncation_text =
     ''Only the first 100 rows of your CSV were sent to the AI for analysis due to prompt '' @
     ''length limitations. The full dataset was used for chart generation.''"
  unfolding truncation_text_def show_nat_def maxRowsForPrompt_def digit_char_def
  by code_simp

section \<open>Properties of the Application State Controller\<close>

subsection \<open>The sample session\<close>

lemma parseCsvText_small:
  "parseCsvText (file_text small_file) = Some \<lparr>headers = [''x'', ''y''], rows = [[''1'', ''2'']]\<rparr>"
  by (simp add: parseCsvText_def small_file_def trim_js_def is_js_space_def)

lemma loaded_state_eq:
  "loaded_state =
     \<lparr>selectedFile = Some small_file,
      csvData = Some \<lparr>headers = [''x'', ''y''], rows = [[''1'', ''2'']]\<rparr>,
      analysisResult = Some sample_result, chatMessages = [],
      isLoadingAnalysis = False, isSendingChat = False, error = None,
      currentChatSession = Some (Chat (initialContext sample_result)),
      outputAudioContext = False, currentAudioSource = None, playingMessageId = None,
      calls = [ParseCsv (file_text small_file),
               AnalyzeCsv \<lparr>headers = [''x'', ''y''], rows = [[''1'', ''2'']]\<rparr>,
               CreateChat (initialContext sample_result)]\<rparr>"
  by (simp add: loaded_state_def handleFileSelect_def parseCsvText_small analyzeAndChat_def
      analyzeCsvData_def demo_generate_def demo_parse_def truncationNote_def
      maxRowsForPrompt_def initial_state_def Let_def)
     (simp add: small_file_def)

lemma answered_state_eq:
  "answered_state =
     loaded_state
       \<lparr>chatMessages :=
          [\<lparr>msg_id = ''u1'', sender = User, msg_text = ''What sells?'', timestamp = ''10:01:00'',
            audioAvailable = None, isPlaying = None\<rparr>,
           \<lparr>msg_id = ''a'', sender = AI, msg_text = ''An answer.'', timestamp = ''10:01:05'',
            audioAvailable = Some True, isPlaying = None\<rparr>,
           \<lparr>msg_id = ''u2'', sender = User, msg_text = ''And why?'', timestamp = ''10:02:00'',
            audioAvailable = None, isPlaying = None\<rparr>,
           \<lparr>msg_id = ''b'', sender = AI, msg_text = ''An answer.'', timestamp = ''10:02:05'',
            audioAvailable = Some True, isPlaying = None\<rparr>],
        calls := calls loaded_state @ [SendChat ''What sells?'', SendChat ''And why?'']\<rparr>"
  by (simp add: answered_state_def handleSendMessage_def sendMessageToChat_def
      demo_stream_def sendMessage_pending_def sendMessage_resolved_def loaded_state_eq)

subsection \<open>Upload\<close>

text \<open>
  Claim C1, as the code has it. For every file whose size exceeds 20 MB, whatever the
  model and the JSON parser would answer, selecting the file invokes neither the Tabular
  Parser nor the Analysis Client (no call is recorded), and it leaves the parsed table,
  the chat session and the audio state as they were; the analysis result and the
  transcript are cleared, since the handler clears them before it checks the size, the
  selection is cleared and the error message is set.
\<close>

theorem oversize_file_rejected:
  assumes "file_size file > 20 * 1024 * 1024"
  shows "handleFileSelect generate parse file s =
           s\<lparr>selectedFile := None, error := Some ''File size exceeds 20MB limit.'',
             analysisResult := None, chatMessages := []\<rparr>
       \<and> calls (handleFileSelect generate parse file s) = calls s
       \<and> csvData (handleFileSelect generate parse file s) = csvData s
       \<and> currentChatSession (handleFileSelect generate parse file s) = currentChatSession s
       \<and> analysisResult (handleFileSelect generate parse file s) = None
       \<and> chatMessages (handleFileSelect generate parse file s) = []"
  using assms by (simp add: handleFileSelect_def)

theorem oversize_file_rejected_witness:
  "file_size big_file > 20 * 1024 * 1024
   \<and> handleFileSelect demo_generate demo_parse big_file answered_state
       = answered_state\<lparr>selectedFile := None, error := Some ''File size exceeds 20MB limit.'',
           analysisResult := None, chatMessages := []\<rparr>
   \<and> calls (handleFileSelect demo_generate demo_parse big_file answered_state)
       = calls answered_state"
  using oversize_file_rejected [of big_file demo_generate demo_parse answered_state]
  by (simp add: big_file_def)

text \<open>
  Claim C1 as stated fails: selecting a file of 20 MB and one byte does not leave the
  loaded analysis result and the transcript unchanged.
\<close>

theorem oversize_file_clears_counterexample:
  "file_size big_file > 20 * 1024 * 1024
   \<and> analysisResult answered_state = Some sample_result
   \<and> analysisResult (handleFileSelect demo_generate demo_parse big_file answered_state) = None
   \<and> map msg_id (chatMessages answered_state) = [''u1'', ''a'', ''u2'', ''b'']
   \<and> chatMessages (handleFileSelect demo_generate demo_parse big_file answered_state) = []"
  by (simp add: handleFileSelect_def big_file_def answered_state_eq loaded_state_eq)

text \<open>A file within the limit does reach the parser and the Analysis Client.\<close>

lemma small_file_calls:
  "calls (handleFileSelect demo_generate demo_parse small_file initial_state)
   = [ParseCsv (file_text small_file),
      AnalyzeCsv \<lparr>headers = [''x'', ''y''], rows = [[''1'', ''2'']]\<rparr>,
      CreateChat (initialContext sample_result)]"
  using loaded_state_eq by (simp add: loaded_state_def)

subsection \<open>Chat\<close>

text \<open>
  Claim C4. For every transcript and every user text, if the chat send fails, the
  transcript afterwards is the transcript as it was before the provisional user message
  was appended: that message is removed and the others are unchanged, in their order. The
  id of the provisional message is the one \<open>uuidv4\<close> returned for it, which no earlier
  message has. The chat session is the same as before.
\<close>

theorem failed_send_rolls_back:
  assumes "currentChatSession s = Some chat" and "analysisResult s = Some r"
    and "stream chat text = Inl e"
    and "uid1 \<notin> set (map msg_id (chatMessages s))"
  shows "chatMessages (handleSendMessage stream uid1 now1 uid2 now2 text s) = chatMessages s
       \<and> currentChatSession (handleSendMessage stream uid1 now1 uid2 now2 text s)
           = currentChatSession s"
proof -
  have "filter (\<lambda>msg. msg_id msg \<noteq> uid1) (chatMessages s) = chatMessages s"
    using assms(4) by (induction "chatMessages s") (auto simp: filter_id_conv)
  then show ?thesis
    using assms(1,2,3)
    by (simp add: handleSendMessage_def sendMessageToChat_def sendMessage_pending_def
        sendMessage_rejected_def)
qed

theorem failed_send_rolls_back_witness:
  "currentChatSession answered_state = Some (Chat (initialContext sample_result))
   \<and> analysisResult answered_state = Some sample_result
   \<and> ''u3'' \<notin> set (map msg_id (chatMessages answered_state))
   \<and> chatMessages (handleSendMessage (\<lambda>chat message. Inl ''offline'') ''u3'' ''10:03:00''
        ''c'' ''10:03:05'' ''Really?'' answered_state) = chatMessages answered_state"
  using failed_send_rolls_back [of answered_state "Chat (initialContext sample_result)"
      sample_result "\<lambda>chat message. Inl ''offline''" "''Really?''" "''offline''" "''u3''"
      "''10:03:00''" "''c''" "''10:03:05''"]
  by (simp add: answered_state_eq loaded_state_eq)

text \<open>A send that succeeds appends both messages.\<close>

lemma successful_send_appends:
  "map msg_id (chatMessages (handleSendMessage demo_stream ''u3'' ''10:03:00'' ''c'' ''10:03:05''
     ''Really?'' answered_state)) = [''u1'', ''a'', ''u2'', ''b'', ''u3'', ''c'']"
  by (simp add: handleSendMessage_def sendMessageToChat_def demo_stream_def
      sendMessage_pending_def sendMessage_resolved_def answered_state_eq loaded_state_eq)

subsection \<open>Audio playback\<close>

text \<open>
  When playback of a message is requested while a source is playing, that source is
  stopped and disconnected and the marker is cleared before the marker is set to the new
  message; the new source starts only afterwards.
\<close>

lemma playing_source_stopped_first:
  assumes "currentAudioSource s = Some a"
  shows "calls (playAudio_requested b s) = calls s @ [SourceStop a, SourceDisconnect a]"
    and "currentAudioSource (playAudio_requested b s) = None"
    and "playingMessageId (playAudio_requested b s) = Some b"
    and "calls (playAudio_started b (playAudio_requested b s))
           = calls s @ [SourceStop a, SourceDisconnect a, SourceStart b]"
  using assms
  by (simp_all add: playAudio_requested_def stopCurrentAudio_def playAudio_started_def)

text \<open>The flag \<open>isPlaying\<close> of the message that was playing is not reset on that path:
  \<open>stopCurrentAudio\<close> clears the marker only.\<close>

lemma stopCurrentAudio_keeps_flags: "chatMessages (stopCurrentAudio s) = chatMessages s"
  by (simp add: stopCurrentAudio_def split: option.splits)

lemma playAudio_requested_messages:
  "chatMessages (playAudio_requested b s) = set_playing b True (chatMessages s)"
  by (simp add: playAudio_requested_def stopCurrentAudio_keeps_flags)

lemma flagged_in_playing_ids:
  "m \<in> set (chatMessages s) \<Longrightarrow> isPlaying m = Some True \<Longrightarrow> msg_id m \<in> set (playing_ids s)"
  by (simp add: playing_ids_def)

text \<open>So a request for \<open>b\<close> flags the messages with id \<open>b\<close> and leaves every message
  that was flagged before flagged.\<close>

lemma request_keeps_flags:
  assumes "a \<in> set (playing_ids s)"
  shows "a \<in> set (playing_ids (playAudio_requested b s))"
proof -
  from assms obtain m where m: "m \<in> set (chatMessages s)" "isPlaying m = Some True" "msg_id m = a"
    by (auto simp: playing_ids_def)
  define m' where "m' = (if msg_id m = b then m\<lparr>isPlaying := Some True\<rparr> else m)"
  have "m' \<in> set (chatMessages (playAudio_requested b s))"
    using m(1) by (auto simp: playAudio_requested_messages set_playing_def m'_def)
  moreover have "isPlaying m' = Some True" "msg_id m' = a"
    using m(2,3) by (simp_all add: m'_def)
  ultimately show ?thesis
    using flagged_in_playing_ids [of m' "playAudio_requested b s"] by simp
qed

lemma request_flags_message:
  assumes "b \<in> set (map msg_id (chatMessages s))"
  shows "b \<in> set (playing_ids (playAudio_requested b s))"
proof -
  from assms obtain m where m: "m \<in> set (chatMessages s)" "msg_id m = b" by auto
  define m' where "m' = m\<lparr>isPlaying := Some True\<rparr>"
  have "m' \<in> set (chatMessages (playAudio_requested b s))"
    using m by (auto simp: playAudio_requested_messages set_playing_def m'_def)
  moreover have "isPlaying m' = Some True" "msg_id m' = b"
    using m(2) by (simp_all add: m'_def)
  ultimately show ?thesis
    using flagged_in_playing_ids [of m' "playAudio_requested b s"] by simp
qed

text \<open>The marker is one id, so it names at most one message of a transcript with distinct
  ids.\<close>

lemma filter_id_at_most_one:
  "distinct (map msg_id msgs) \<Longrightarrow> length (filter (\<lambda>msg. msg_id msg = uid) msgs) \<le> 1"
proof (induction msgs)
  case Nil
  show ?case by simp
next
  case (Cons a msgs)
  show ?case
  proof (cases "msg_id a = uid")
    case True
    have "msg_id a \<notin> msg_id ` set msgs" using Cons.prems by simp
    with True have "\<forall>msg\<in>set msgs. msg_id msg \<noteq> uid" by blast
    then have "filter (\<lambda>msg. msg_id msg = uid) msgs = []" by (simp add: filter_empty_conv)
    with True show ?thesis by simp
  next
    case False
    then show ?thesis using Cons by simp
  qed
qed

lemma marker_names_at_most_one:
  assumes "distinct (map msg_id (chatMessages s))"
  shows "length (filter (\<lambda>msg. playingMessageId s = Some (msg_id msg)) (chatMessages s)) \<le> 1"
proof (cases "playingMessageId s")
  case None
  then show ?thesis by simp
next
  case (Some uid)
  then have "filter (\<lambda>msg. playingMessageId s = Some (msg_id msg)) (chatMessages s)
      = filter (\<lambda>msg. msg_id msg = uid) (chatMessages s)"
    by (auto intro: filter_cong)
  then show ?thesis using filter_id_at_most_one [OF assms, of uid] by simp
qed

text \<open>A request made while the speech of an earlier request is still being fetched stops
  nothing, and both sources start when their speech arrives.\<close>

lemma overlapping_requests_start_both:
  "calls (fold audio_step
            [PlayRequested ''a'', PlayRequested ''b'', SpeechReady ''a'', SpeechReady ''b'']
            answered_state) = calls answered_state @ [SourceStart ''a'', SourceStart ''b'']"
  by (simp add: playAudio_requested_def playAudio_started_def stopCurrentAudio_def
      answered_state_eq loaded_state_eq)

text \<open>
  Claim C5 on the code. In the sample session, after playback of the assistant's message
  \<open>a\<close> is requested and its audio has started, playback of the assistant's message \<open>b\<close>
  is requested. In the state reached, the source of \<open>a\<close> has been stopped and the marker
  names \<open>b\<close>, but both messages are flagged as playing.
\<close>

theorem play_while_playing_flags_both:
  "playing_ids (fold audio_step [PlayRequested ''a'', SpeechReady ''a'', PlayRequested ''b'']
                  answered_state) = [''a'', ''b'']
   \<and> playingMessageId (fold audio_step [PlayRequested ''a'', SpeechReady ''a'', PlayRequested ''b'']
                  answered_state) = Some ''b''
   \<and> calls (fold audio_step [PlayRequested ''a'', SpeechReady ''a'', PlayRequested ''b'']
                  answered_state)
       = calls answered_state @ [SourceStart ''a'', SourceStop ''a'', SourceDisconnect ''a'']"
  by (simp add: playing_ids_def playAudio_requested_def playAudio_started_def
      stopCurrentAudio_def set_playing_def answered_state_eq loaded_state_eq)

section \<open>Properties of the chat input\<close>

text \<open>
  Claim C10. For every chat-input string, the send-message callback is invoked only when
  the string trims to a non-empty text, and the text passed to it is the trimmed input;
  an input that trims to the empty string is never sent.
\<close>

theorem ChatInput_sends_trimmed_nonempty:
  "(\<forall>t. fst (ChatInput_handleSendMessage v d) = Some t \<longrightarrow> trim_js v \<noteq> [] \<and> t = trim_js v)
   \<and> (trim_js v = [] \<longrightarrow> fst (ChatInput_handleSendMessage v d) = None)"
  by (simp add: ChatInput_handleSendMessage_def)

theorem ChatInput_sends_trimmed_nonempty_witness:
  "fst (ChatInput_handleSendMessage ''  hi there  '' False) = Some ''hi there''
   \<and> trim_js ''  hi there  '' \<noteq> []
   \<and> trim_js [CHR 0x20, CHR 0x0A] = []
   \<and> fst (ChatInput_handleSendMessage [CHR 0x20, CHR 0x0A] False) = None"
  using ChatInput_sends_trimmed_nonempty [of "''  hi there  ''" False]
    ChatInput_sends_trimmed_nonempty [of "[CHR 0x20, CHR 0x0A]" False]
  by (simp add: ChatInput_handleSendMessage_def trim_js_def is_js_space_def)

end
